theory Spec2Isabelle
  imports Complex_Main "HOL-Library.Monad_Syntax" "HOL-Library.Sublist"
begin

section \<open>Values\<close>

text \<open>
  A Python float is modelled as an exact real or one of the three non-finite values;
  rounding is not modelled.  A CSV cell written by \<open>process_file\<close> is a string, an
  integer or a float.  An exception carries the text that \<open>str(e)\<close> gives.
\<close>

datatype pyfloat = Finite real | NaN | PosInf | NegInf

datatype pyval = PyStr string | PyInt int | PyFloat pyfloat

datatype exn = Exn string

fun isfinite :: "pyfloat \<Rightarrow> bool" where
  "isfinite (Finite x) = True"
| "isfinite NaN = False"
| "isfinite PosInf = False"
| "isfinite NegInf = False"

text \<open>The sum of two floats, without rounding.\<close>

fun fadd :: "pyfloat \<Rightarrow> pyfloat \<Rightarrow> pyfloat" where
  "fadd (Finite a) (Finite b) = Finite (a + b)"
| "fadd NaN y = NaN"
| "fadd x NaN = NaN"
| "fadd PosInf NegInf = NaN"
| "fadd NegInf PosInf = NaN"
| "fadd PosInf y = PosInf"
| "fadd x PosInf = PosInf"
| "fadd NegInf y = NegInf"
| "fadd x NegInf = NegInf"

fun finite_values :: "pyfloat list \<Rightarrow> real list" where
  "finite_values [] = []"
| "finite_values (Finite x # vs) = x # finite_values vs"
| "finite_values (v # vs) = finite_values vs"

definition attempt :: "exn + 'a \<Rightarrow> 'a option" where
  "attempt r = (case r of Inl e \<Rightarrow> None | Inr v \<Rightarrow> Some v)"

section \<open>The libraries the program calls\<close>

text \<open>
  \<open>networkx\<close>, \<open>numpy\<close>, \<open>lmoments3\<close>, \<open>os.walk\<close> and the number formatting
  of \<open>csv.writer\<close> are not part of the program.  Their functions are the fields of one
  record, over a type \<open>'g\<close> of graphs; a call that can raise returns \<open>exn + _\<close>.
  \<open>nx_degree\<close> is the list \<open>dict(G.degree()).values()\<close>, \<open>read_dot\<close> is
  \<open>nx.DiGraph(nx.nx_pydot.read_dot(file_path))\<close>, and the three centrality fields
  are the lists of the values of the dictionaries networkx returns.
  \<open>astype_float32\<close> is the cast of one entry by \<open>.astype(np.float32)\<close>, which rounds to
  single precision, and \<open>np_sum\<close> is the sum numpy forms of one row of single-precision
  numbers.
\<close>

record 'g libs =
  read_dot :: "string \<Rightarrow> exn + 'g"
  number_of_nodes :: "'g \<Rightarrow> nat"
  number_of_edges :: "'g \<Rightarrow> nat"
  nx_degree :: "'g \<Rightarrow> int list"
  to_undirected :: "'g \<Rightarrow> 'g"
  nx_density :: "'g \<Rightarrow> exn + pyval"
  nx_is_connected :: "'g \<Rightarrow> exn + bool"
  nx_diameter :: "'g \<Rightarrow> exn + pyval"
  nx_average_clustering :: "'g \<Rightarrow> exn + pyval"
  nx_average_shortest_path_length :: "'g \<Rightarrow> exn + pyval"
  to_numpy_array :: "'g \<Rightarrow> exn + pyfloat list list"
  astype_float32 :: "pyfloat \<Rightarrow> pyfloat"
  np_sum :: "pyfloat list \<Rightarrow> pyfloat"
  nx_betweenness_centrality :: "'g \<Rightarrow> exn + pyfloat list"
  nx_closeness_centrality :: "'g \<Rightarrow> exn + pyfloat list"
  nx_clustering :: "'g \<Rightarrow> exn + pyfloat list"
  lmom_ratios :: "real list \<Rightarrow> exn + (pyfloat \<times> pyfloat \<times> pyfloat \<times> pyfloat)"
  os_walk :: "string \<Rightarrow> (string \<times> string list) list"
  num_str :: "pyval \<Rightarrow> string"

section \<open>L-moments\<close>

text \<open>
  \<open>calculate_lmoments\<close>: keep the finite values; fewer than four of them give the
  integers \<open>0, 0, 0, 0\<close>; otherwise the four values of \<open>lmom_ratios(values, nmom=4)\<close>.
  An exception of the library is not caught here.
\<close>

definition calculate_lmoments ::
  "'g libs \<Rightarrow> pyfloat list \<Rightarrow> exn + (pyval \<times> pyval \<times> pyval \<times> pyval)" where
  "calculate_lmoments L values =
     (let vals = finite_values values in
      if length vals < 4 then Inr (PyInt 0, PyInt 0, PyInt 0, PyInt 0)
      else (case lmom_ratios L vals of
              Inl e \<Rightarrow> Inl e
            | Inr (l1, l2, t3, t4) \<Rightarrow> Inr (PyFloat l1, PyFloat l2, PyFloat t3, PyFloat t4)))"


section \<open>Probability-weighted moments\<close>

text \<open>
  Modelled from the spec: \<open>lmom_ratios\<close> of the third-party package \<open>lmoments3\<close>,
  whose code is not in the repository.  Section 4.1: sort the values; \<open>b_r\<close> is the
  mean over the order statistics weighted by the ratio of the binomial coefficients of
  rank and sample size; \<open>L1 = b0\<close>, \<open>L2 = 2 b1 - b0\<close>, \<open>L3 = 6 b2 - 6 b1 + b0\<close>,
  \<open>L4 = 20 b3 - 30 b2 + 12 b1 - b0\<close>; the result is \<open>L1\<close>, \<open>L2\<close> and the ratios
  \<open>t3 = L3 / L2\<close>, \<open>t4 = L4 / L2\<close>, which are 0 if \<open>L2\<close> is 0.  The library as it
  behaves, which has no such test of \<open>L2\<close>, is \<open>lmoments3_lmom_ratios\<close> below.
\<close>

definition pwm :: "nat \<Rightarrow> real list \<Rightarrow> real" where
  "pwm r xs =
     (let n = length xs in
      sum_list (map (\<lambda>i. real (i choose r) / real ((n - 1) choose r) * (xs ! i)) [0..<n])
        / real n)"

definition sample_lmoments :: "real list \<Rightarrow> real \<times> real \<times> real \<times> real" where
  "sample_lmoments vals =
     (let xs = sort vals;
          b0 = pwm 0 xs; b1 = pwm 1 xs; b2 = pwm 2 xs; b3 = pwm 3 xs
      in (b0, 2 * b1 - b0, 6 * b2 - 6 * b1 + b0, 20 * b3 - 30 * b2 + 12 * b1 - b0))"

definition lmom_ratios_spec ::
  "real list \<Rightarrow> exn + (pyfloat \<times> pyfloat \<times> pyfloat \<times> pyfloat)" where
  "lmom_ratios_spec vals =
     (case sample_lmoments vals of (l1, l2, l3, l4) \<Rightarrow>
        Inr (Finite l1, Finite l2,
             Finite (if l2 = 0 then 0 else l3 / l2),
             Finite (if l2 = 0 then 0 else l4 / l2)))"

section \<open>The failure log and the graph measures\<close>

text \<open>
  A CSV file is the list of rows \<open>csv.reader\<close> yields from it, or \<open>None\<close> when the
  file does not exist.  Opening for append creates the file.
\<close>

type_synonym csvfile = "string list list option"

definition rows :: "csvfile \<Rightarrow> string list list" where
  "rows f = (case f of None \<Rightarrow> [] | Some rs \<Rightarrow> rs)"

definition append_row :: "string list \<Rightarrow> csvfile \<Rightarrow> csvfile" where
  "append_row r f = Some (rows f @ [r])"

definition log_unprocessed_file :: "string \<Rightarrow> string \<Rightarrow> csvfile \<Rightarrow> csvfile" where
  "log_unprocessed_file file_path error_message flog = append_row [file_path, error_message] flog"

text \<open>\<open>np.sum(adj_matrix, axis=1)\<close>: the sum of each row.\<close>

definition calculate_degree_centrality :: "'g libs \<Rightarrow> pyfloat list list \<Rightarrow> pyfloat list" where
  "calculate_degree_centrality L adj_matrix = map (np_sum L) adj_matrix"

definition parse_network_data :: "'g libs \<Rightarrow> string \<Rightarrow> csvfile \<Rightarrow> 'g option \<times> csvfile" where
  "parse_network_data L file_path flog =
     (case read_dot L file_path of
        Inr G \<Rightarrow> (Some G, flog)
      | Inl (Exn e) \<Rightarrow> (None, log_unprocessed_file file_path (''Error parsing: '' @ e) flog))"

text \<open>
  \<open>calculate_statistics\<close>: the whole body is inside \<open>try\<close>, and the handler returns
  \<open>None\<close>.  The diameter and the average path length are asked of the directed graph
  \<open>G\<close>, and only when \<open>nx.is_connected(G.to_undirected())\<close> holds.
\<close>

definition calculate_statistics ::
  "'g libs \<Rightarrow> 'g \<Rightarrow> (nat \<times> nat \<times> pyval \<times> pyval \<times> pyval \<times> pyval \<times> pyval) option" where
  "calculate_statistics L G =
     (let num_nodes = number_of_nodes L G;
          num_edges = number_of_edges L G;
          avg_degree = (if num_nodes > 0
                        then PyFloat (Finite (real_of_int (sum_list (nx_degree L G)) / real num_nodes))
                        else PyInt 0)
      in do {
        density \<leftarrow> attempt (nx_density L G);
        connected \<leftarrow> attempt (nx_is_connected L (to_undirected L G));
        diameter \<leftarrow> (if connected then attempt (nx_diameter L G) else Some (PyFloat NaN));
        avg_clustering_coefficient \<leftarrow> attempt (nx_average_clustering L (to_undirected L G));
        connected' \<leftarrow> attempt (nx_is_connected L (to_undirected L G));
        avg_path_length \<leftarrow> (if connected' then attempt (nx_average_shortest_path_length L G)
                            else Some (PyFloat NaN));
        Some (num_nodes, num_edges, avg_degree, density, diameter,
              avg_clustering_coefficient, avg_path_length)
      })"

text \<open>
  \<open>calculate_centrality_measures\<close> returns four series, or four times \<open>None\<close> from its
  handler; the model returns \<open>Some\<close> of the four series or \<open>None\<close>.
\<close>

definition calculate_centrality_measures ::
  "'g libs \<Rightarrow> 'g \<Rightarrow> (pyfloat list \<times> pyfloat list \<times> pyfloat list \<times> pyfloat list) option" where
  "calculate_centrality_measures L G =
     do {
       array \<leftarrow> attempt (to_numpy_array L G);
       let adj_matrix = map (map (astype_float32 L)) array;
       let degree_centrality = calculate_degree_centrality L adj_matrix;
       betweenness_centrality \<leftarrow> attempt (nx_betweenness_centrality L G);
       closeness_centrality \<leftarrow> attempt (nx_closeness_centrality L G);
       clustering_centrality \<leftarrow> attempt (nx_clustering L (to_undirected L G));
       Some (degree_centrality, betweenness_centrality, closeness_centrality,
             clustering_centrality)
     }"

section \<open>One file\<close>

fun tuple_list :: "'a \<times> 'a \<times> 'a \<times> 'a \<Rightarrow> 'a list" where
  "tuple_list (a, b, c, d) = [a, b, c, d]"

text \<open>The four calls of \<open>calculate_lmoments\<close> and the row, lines 124 to 130.\<close>

definition build_row ::
  "'g libs \<Rightarrow> string \<Rightarrow> string \<Rightarrow> (nat \<times> nat \<times> pyval \<times> pyval \<times> pyval \<times> pyval \<times> pyval) \<Rightarrow>
   (pyfloat list \<times> pyfloat list \<times> pyfloat list \<times> pyfloat list) \<Rightarrow> exn + pyval list" where
  "build_row L file_path malware_name stats series =
     (case (stats, series) of
        ((num_nodes, num_edges, avg_degree, density, diameter, avg_clustering_coefficient,
          avg_path_length),
         (degree_centrality, betweenness_centrality, closeness_centrality,
          clustering_centrality)) \<Rightarrow>
     (case calculate_lmoments L degree_centrality of Inl e \<Rightarrow> Inl e | Inr degree_lmoments \<Rightarrow>
     (case calculate_lmoments L betweenness_centrality of Inl e \<Rightarrow> Inl e | Inr betweenness_lmoments \<Rightarrow>
     (case calculate_lmoments L closeness_centrality of Inl e \<Rightarrow> Inl e | Inr closeness_lmoments \<Rightarrow>
     (case calculate_lmoments L clustering_centrality of Inl e \<Rightarrow> Inl e | Inr clustering_lmoments \<Rightarrow>
        Inr ([PyStr file_path, PyStr malware_name, PyInt (int num_nodes), PyInt (int num_edges),
              avg_degree, density, diameter, avg_clustering_coefficient, avg_path_length]
             @ tuple_list degree_lmoments @ tuple_list betweenness_lmoments
             @ tuple_list closeness_lmoments @ tuple_list clustering_lmoments))))))"

text \<open>
  \<open>process_file\<close> takes the set \<open>processed_files\<close> of the worker and the failure log,
  and returns the row or \<open>None\<close>, and the failure log.
\<close>

definition process_file ::
  "'g libs \<Rightarrow> pyval set \<Rightarrow> string \<times> bool \<Rightarrow> csvfile \<Rightarrow> pyval list option \<times> csvfile" where
  "process_file L processed_files args flog =
     (case args of (file_path, is_malicious) \<Rightarrow>
      if PyStr file_path \<in> processed_files then (None, flog)
      else (case parse_network_data L file_path flog of
        (None, log1) \<Rightarrow>
          (None, log_unprocessed_file file_path ''Graph is empty or couldn't be parsed.'' log1)
      | (Some G, log1) \<Rightarrow>
          if number_of_nodes L G = 0 \<or> number_of_edges L G = 0
          then (None, log_unprocessed_file file_path ''Graph is empty or couldn't be parsed.'' log1)
          else
            let malware_name = (if is_malicious then ''Malicious'' else ''Nonmalicious'') in
            (case calculate_statistics L G of
               None \<Rightarrow> (None, log_unprocessed_file file_path ''Error calculating statistics'' log1)
             | Some stats \<Rightarrow>
                 if fst stats = 0
                 then (None, log_unprocessed_file file_path ''Number of nodes is zero'' log1)
                 else (case calculate_centrality_measures L G of
                    None \<Rightarrow>
                      (None, log_unprocessed_file file_path
                               ''Error calculating centrality measures'' log1)
                  | Some series \<Rightarrow>
                      (case build_row L file_path malware_name stats series of
                         Inr row \<Rightarrow> (Some row, log1)
                       | Inl (Exn e) \<Rightarrow>
                           (None, log_unprocessed_file file_path
                                    (''Error processing: '' @ e) log1))))))"

section \<open>The run\<close>

definition csv_field :: "'g libs \<Rightarrow> pyval \<Rightarrow> string" where
  "csv_field L v = (case v of PyStr s \<Rightarrow> s | _ \<Rightarrow> num_str L v)"

text \<open>\<open>write_result_to_csv\<close> writes a row that is not empty.\<close>

definition write_result_to_csv :: "'g libs \<Rightarrow> pyval list \<Rightarrow> csvfile \<Rightarrow> csvfile" where
  "write_result_to_csv L row csvfile =
     (if row \<noteq> [] then append_row (map (csv_field L) row) csvfile else csvfile)"

text \<open>
  \<open>str.strip()\<close>, on the white space of ASCII.  Python also strips the white space of
  Unicode beyond ASCII, which is not modelled.
\<close>

definition is_space :: "char \<Rightarrow> bool" where
  "is_space c = (c \<in> set [CHR '' '', CHR 0x09, CHR 0x0A, CHR 0x0B, CHR 0x0C, CHR 0x0D,
                           CHR 0x1C, CHR 0x1D, CHR 0x1E, CHR 0x1F])"

definition strip :: "string \<Rightarrow> string" where
  "strip s = rev (dropWhile is_space (rev (dropWhile is_space s)))"

definition get_processed_files :: "csvfile \<Rightarrow> pyval set" where
  "get_processed_files csvfile =
     (case csvfile of
        None \<Rightarrow> {}
      | Some rs \<Rightarrow> set (map (\<lambda>row. PyStr (strip (hd row))) (filter (\<lambda>row. row \<noteq> []) (tl rs))))"

text \<open>\<open>os.path.join\<close> of \<open>posixpath\<close>, for two components.\<close>

definition os_path_join :: "string \<Rightarrow> string \<Rightarrow> string" where
  "os_path_join a b =
     (if take 1 b = ''/'' then b
      else if a = [] \<or> last a = CHR ''/'' then a @ b
      else a @ ''/'' @ b)"

definition endswith :: "string \<Rightarrow> string \<Rightarrow> bool" where
  "endswith s suf = (length suf \<le> length s \<and> drop (length s - length suf) s = suf)"

text \<open>One of the two loops over \<open>os.walk\<close>, lines 175 to 181 and 183 to 189.\<close>

definition walk_directory ::
  "'g libs \<Rightarrow> pyval set \<Rightarrow> string \<Rightarrow> bool \<Rightarrow> (string \<times> bool) list" where
  "walk_directory L processed_files directory label =
     concat (map (\<lambda>(root, files).
        map (\<lambda>filename. (os_path_join root filename, label))
          (filter (\<lambda>filename. endswith filename ''.dot'' \<and>
                     PyStr (os_path_join root filename) \<notin> processed_files) files))
        (os_walk L directory))"

definition file_paths :: "'g libs \<Rightarrow> pyval set \<Rightarrow> (string \<times> bool) list" where
  "file_paths L processed_files =
     walk_directory L processed_files ''Malicious'' True
     @ walk_directory L processed_files ''Nonmalicious'' False"

definition columns :: "string list" where
  "columns = [''Filename'', ''Malicious/Nonmalicious'', ''Number of Nodes'', ''Number of Edges'',
     ''Average Degree'', ''Density'', ''Diameter'', ''Average Clustering'', ''Average Path Length'',
     ''Degree L1'', ''Degree L2'', ''Degree T3'', ''Degree T4'',
     ''Betweenness L1'', ''Betweenness L2'', ''Betweenness T3'', ''Betweenness T4'',
     ''Closeness L1'', ''Closeness L2'', ''Closeness T3'', ''Closeness T4'',
     ''Clustering L1'', ''Clustering L2'', ''Clustering T3'', ''Clustering T4'']"

record state =
  output_csv :: csvfile
  unprocessed_files_log :: csvfile
  processed_files :: "pyval set"

text \<open>
  The loop over \<open>pool.imap_unordered(process_file, file_paths)\<close>, with the results
  taken in the order of \<open>file_paths\<close>.  The workers hold the set \<open>worker_set\<close>, the
  value of \<open>processed_files\<close> when the pool starts; the orchestrator writes the row and
  adds its first field to its own set.
\<close>

fun dispatch ::
  "'g libs \<Rightarrow> pyval set \<Rightarrow> (string \<times> bool) list \<Rightarrow> state \<Rightarrow> state" where
  "dispatch L worker_set [] st = st"
| "dispatch L worker_set (args # rest) st =
     (case process_file L worker_set args (unprocessed_files_log st) of
        (Some (r0 # row), flog) \<Rightarrow>
          dispatch L worker_set rest
            \<lparr>output_csv = write_result_to_csv L (r0 # row) (output_csv st),
             unprocessed_files_log = flog,
             processed_files = insert r0 (processed_files st)\<rparr>
      | (_, flog) \<Rightarrow>
          dispatch L worker_set rest (st\<lparr>unprocessed_files_log := flog\<rparr>))"

definition main :: "'g libs \<Rightarrow> state \<Rightarrow> state" where
  "main L st =
     (let log0 = (if unprocessed_files_log st = None
                  then Some [[''Filename'', ''Error Message'']]
                  else unprocessed_files_log st);
          ledger = get_processed_files (output_csv st);
          paths = file_paths L ledger
      in if paths = []
         then st\<lparr>unprocessed_files_log := log0, processed_files := ledger\<rparr>
         else
           let csvfile = Some (rows (output_csv st));
               csvfile' = (if rows csvfile = [] then append_row columns csvfile else csvfile)
           in dispatch L ledger paths
                \<lparr>output_csv = csvfile', unprocessed_files_log = log0, processed_files = ledger\<rparr>)"

section \<open>Notions for the properties of a run\<close>

text \<open>
  The rows that the workers return for a list of work items, the identities that the
  data rows of a CSV file hold (the set of \<open>get_processed_files\<close> as a list), the
  contract of \<open>nx.to_numpy_array\<close> that the matrix has one row for each node, and the
  contract of \<open>os.walk(top)\<close> that every directory it yields starts with \<open>top\<close>.
\<close>

definition accepted :: "'g libs \<Rightarrow> pyval set \<Rightarrow> (string \<times> bool) list \<Rightarrow> pyval list list" where
  "accepted L worker_set paths =
     List.map_filter (\<lambda>args. fst (process_file L worker_set args None)) paths"

definition identities :: "csvfile \<Rightarrow> pyval list" where
  "identities f = map (\<lambda>row. PyStr (strip (hd row))) (filter (\<lambda>row. row \<noteq> []) (tl (rows f)))"

definition one_row_per_node :: "'g libs \<Rightarrow> 'g \<Rightarrow> bool" where
  "one_row_per_node L G =
     (case to_numpy_array L G of
        Inr A \<Rightarrow> length A = number_of_nodes L G
      | Inl e \<Rightarrow> True)"

definition walk_ok :: "'g libs \<Rightarrow> bool" where
  "walk_ok L =
     (list_all (\<lambda>(root, files). prefix ''Malicious'' root) (os_walk L ''Malicious'') \<and>
      list_all (\<lambda>(root, files). prefix ''Nonmalicious'' root) (os_walk L ''Nonmalicious''))"

section \<open>Example libraries\<close>

text \<open>
  A corpus of six graph files for the concrete instances below, with the answers of the
  libraries on each.  In the directory \<open>Malicious\<close>: \<open>cycle.dot\<close> holds the directed
  cycle \<open>a -> b -> c -> d -> a\<close>, \<open>edge.dot\<close> the single edge \<open>a -> b\<close>, and
  \<open>heavy.dot\<close> the edges \<open>a -> b\<close> and \<open>b -> a\<close> with the attribute
  \<open>weight="heavy"\<close>, which \<open>to_numpy_array\<close> cannot convert.  In \<open>Nonmalicious\<close>:
  \<open>bad.dot\<close> is not a graph description, \<open>lone.dot\<close> holds one node and no edge,
  and \<open>sub/two.dot\<close> the two edges \<open>a -> b\<close> and \<open>c -> d\<close>.
  \<open>nx.diameter\<close> and \<open>nx.average_shortest_path_length\<close> raise on a directed graph
  that is not strongly connected, and \<open>nx.is_connected\<close> raises on a directed graph.
  A call that the program does not make on these graphs raises \<open>unused\<close>.  The
  entries 0 and 1 of the adjacency matrices are single-precision numbers and their sums
  are exact.  \<open>lmom_ratios\<close> of lmoments3 computes the sample L-moments of section 4.1
  and divides the third and the fourth by \<open>L2\<close> with the float division of numpy,
  without a test of \<open>L2\<close>: 0 divided by 0 is nan, another number divided by 0 is an
  infinity.  The text of a number in the CSV file plays no part and is a placeholder.
\<close>

definition np_divide :: "real \<Rightarrow> real \<Rightarrow> pyfloat" where
  "np_divide x y =
     (if y \<noteq> 0 then Finite (x / y)
      else if x = 0 then NaN else if 0 < x then PosInf else NegInf)"

definition lmoments3_lmom_ratios ::
  "real list \<Rightarrow> exn + (pyfloat \<times> pyfloat \<times> pyfloat \<times> pyfloat)" where
  "lmoments3_lmom_ratios vals =
     (case sample_lmoments vals of (l1, l2, l3, l4) \<Rightarrow>
        Inr (Finite l1, Finite l2, np_divide l3 l2, np_divide l4 l2))"

datatype example_name = Cycle4 | Edge | TwoEdges | Heavy | Lone

datatype example_graph = DiGraph example_name | Graph example_name

fun name_of :: "example_graph \<Rightarrow> example_name" where
  "name_of (DiGraph n) = n"
| "name_of (Graph n) = n"

definition example_read_dot :: "string \<Rightarrow> exn + example_graph" where
  "example_read_dot file_path =
     (if file_path = ''Malicious/cycle.dot'' then Inr (DiGraph Cycle4)
      else if file_path = ''Malicious/edge.dot'' then Inr (DiGraph Edge)
      else if file_path = ''Malicious/heavy.dot'' then Inr (DiGraph Heavy)
      else if file_path = ''Nonmalicious/lone.dot'' then Inr (DiGraph Lone)
      else if file_path = ''Nonmalicious/sub/two.dot'' then Inr (DiGraph TwoEdges)
      else Inl (Exn ''syntax error''))"

definition example_walk :: "string \<Rightarrow> (string \<times> string list) list" where
  "example_walk directory =
     (if directory = ''Malicious''
      then [(''Malicious'', [''cycle.dot'', ''edge.dot'', ''heavy.dot'', ''notes.txt''])]
      else if directory = ''Nonmalicious''
      then [(''Nonmalicious'', [''bad.dot'', ''lone.dot'']), (''Nonmalicious/sub'', [''two.dot''])]
      else [])"

definition unused :: "exn + 'a" where
  "unused = Inl (Exn ''unused'')"

definition not_strongly_connected :: "exn + pyval" where
  "not_strongly_connected =
     Inl (Exn ''Found infinite path length because the digraph is not strongly connected'')"

definition example_libs :: "example_graph libs" where
  "example_libs = \<lparr>
     read_dot = example_read_dot,
     number_of_nodes = (\<lambda>g. case name_of g of Cycle4 \<Rightarrow> 4 | Edge \<Rightarrow> 2 | TwoEdges \<Rightarrow> 4
                                            | Heavy \<Rightarrow> 2 | Lone \<Rightarrow> 1),
     number_of_edges = (\<lambda>g. case g of DiGraph Cycle4 \<Rightarrow> 4 | DiGraph Edge \<Rightarrow> 1
                                      | DiGraph TwoEdges \<Rightarrow> 2 | DiGraph Heavy \<Rightarrow> 2
                                      | DiGraph Lone \<Rightarrow> 0
                                      | Graph Cycle4 \<Rightarrow> 4 | Graph Edge \<Rightarrow> 1
                                      | Graph TwoEdges \<Rightarrow> 2 | Graph Heavy \<Rightarrow> 1
                                      | Graph Lone \<Rightarrow> 0),
     nx_degree = (\<lambda>g. case g of DiGraph Cycle4 \<Rightarrow> [2, 2, 2, 2] | DiGraph Edge \<Rightarrow> [1, 1]
                                | DiGraph TwoEdges \<Rightarrow> [1, 1, 1, 1] | DiGraph Heavy \<Rightarrow> [2, 2]
                                | DiGraph Lone \<Rightarrow> [0]
                                | Graph Cycle4 \<Rightarrow> [2, 2, 2, 2] | Graph Edge \<Rightarrow> [1, 1]
                                | Graph TwoEdges \<Rightarrow> [1, 1, 1, 1] | Graph Heavy \<Rightarrow> [1, 1]
                                | Graph Lone \<Rightarrow> [0]),
     to_undirected = (\<lambda>g. Graph (name_of g)),
     nx_density = (\<lambda>g. case g of DiGraph Cycle4 \<Rightarrow> Inr (PyFloat (Finite (1 / 3)))
                                 | DiGraph Edge \<Rightarrow> Inr (PyFloat (Finite (1 / 2)))
                                 | DiGraph TwoEdges \<Rightarrow> Inr (PyFloat (Finite (1 / 6)))
                                 | DiGraph Heavy \<Rightarrow> Inr (PyFloat (Finite 1))
                                 | DiGraph Lone \<Rightarrow> Inr (PyInt 0)
                                 | Graph n \<Rightarrow> unused),
     nx_is_connected = (\<lambda>g. case g of Graph TwoEdges \<Rightarrow> Inr False
                                      | Graph n \<Rightarrow> Inr True
                                      | DiGraph n \<Rightarrow> Inl (Exn ''not implemented for directed type'')),
     nx_diameter = (\<lambda>g. case g of DiGraph Cycle4 \<Rightarrow> Inr (PyInt 3)
                                  | DiGraph Heavy \<Rightarrow> Inr (PyInt 1)
                                  | DiGraph Lone \<Rightarrow> Inr (PyInt 0)
                                  | DiGraph n \<Rightarrow> not_strongly_connected
                                  | Graph n \<Rightarrow> unused),
     nx_average_clustering = (\<lambda>g. case g of Graph n \<Rightarrow> Inr (PyFloat (Finite 0))
                                            | DiGraph n \<Rightarrow> unused),
     nx_average_shortest_path_length =
       (\<lambda>g. case g of DiGraph Cycle4 \<Rightarrow> Inr (PyFloat (Finite 2))
                     | DiGraph Heavy \<Rightarrow> Inr (PyFloat (Finite 1))
                     | DiGraph Lone \<Rightarrow> Inr (PyInt 0)
                     | DiGraph n \<Rightarrow> Inl (Exn ''Graph is not strongly connected.'')
                     | Graph n \<Rightarrow> unused),
     to_numpy_array =
       (\<lambda>g. case g of
          DiGraph Cycle4 \<Rightarrow>
            Inr (map (map Finite) [[0, 1, 0, 0], [0, 0, 1, 0], [0, 0, 0, 1], [1, 0, 0, 0]])
        | DiGraph Edge \<Rightarrow> Inr (map (map Finite) [[0, 1], [0, 0]])
        | DiGraph TwoEdges \<Rightarrow>
            Inr (map (map Finite) [[0, 1, 0, 0], [0, 0, 0, 0], [0, 0, 0, 1], [0, 0, 0, 0]])
        | DiGraph Heavy \<Rightarrow> Inl (Exn ''could not convert string to float: 'heavy' '')
        | DiGraph Lone \<Rightarrow> Inr [[Finite 0]]
        | Graph n \<Rightarrow> unused),
     astype_float32 = (\<lambda>x. x),
     np_sum = foldl fadd (Finite 0),
     nx_betweenness_centrality =
       (\<lambda>g. case g of DiGraph Cycle4 \<Rightarrow> Inr (map Finite [1 / 2, 1 / 2, 1 / 2, 1 / 2])
                     | DiGraph Edge \<Rightarrow> Inr (map Finite [0, 0])
                     | DiGraph TwoEdges \<Rightarrow> Inr (map Finite [0, 0, 0, 0])
                     | DiGraph Heavy \<Rightarrow> Inr (map Finite [0, 0])
                     | DiGraph Lone \<Rightarrow> Inr [Finite 0]
                     | Graph n \<Rightarrow> unused),
     nx_closeness_centrality =
       (\<lambda>g. case g of DiGraph Cycle4 \<Rightarrow> Inr (map Finite [1 / 2, 1 / 2, 1 / 2, 1 / 2])
                     | DiGraph Edge \<Rightarrow> Inr (map Finite [0, 1])
                     | DiGraph TwoEdges \<Rightarrow> Inr (map Finite [0, 1 / 3, 0, 1 / 3])
                     | DiGraph Heavy \<Rightarrow> Inr (map Finite [1, 1])
                     | DiGraph Lone \<Rightarrow> Inr [Finite 0]
                     | Graph n \<Rightarrow> unused),
     nx_clustering =
       (\<lambda>g. case g of Graph Cycle4 \<Rightarrow> Inr (map Finite [0, 0, 0, 0])
                     | Graph TwoEdges \<Rightarrow> Inr (map Finite [0, 0, 0, 0])
                     | Graph Lone \<Rightarrow> Inr [Finite 0]
                     | Graph n \<Rightarrow> Inr (map Finite [0, 0])
                     | DiGraph n \<Rightarrow> unused),
     lmom_ratios = lmoments3_lmom_ratios,
     os_walk = example_walk,
     num_str = (\<lambda>v. ''0'')
   \<rparr>"

definition no_files :: state where
  "no_files = \<lparr>output_csv = None, unprocessed_files_log = None, processed_files = {}\<rparr>"

text \<open>
  A corpus of three files \<open>A\<close>, \<open>B\<close>, \<open>C\<close>, and an output file of an earlier run whose
  first column holds \<open>A\<close> and \<open>B\<close> with white space around them.
\<close>

definition abc_libs :: "example_graph libs" where
  "abc_libs = example_libs\<lparr>os_walk :=
     (\<lambda>directory.
        if directory = ''Malicious'' then [(''Malicious'', [''A.dot'', ''B.dot''])]
        else if directory = ''Nonmalicious'' then [(''Nonmalicious'', [''C.dot''])]
        else [])\<rparr>"

definition abc_output :: csvfile where
  "abc_output = Some [columns, [''Malicious/A.dot '', ''Malicious''],
                      ['' Malicious/B.dot'', ''Malicious'']]"

text \<open>The rows of the two files of the example corpus that give one.\<close>

definition cycle_row :: "pyval list" where
  "cycle_row =
     [PyStr ''Malicious/cycle.dot'', PyStr ''Malicious'', PyInt 4, PyInt 4,
      PyFloat (Finite 2), PyFloat (Finite (1 / 3)), PyInt 3,
      PyFloat (Finite 0), PyFloat (Finite 2),
      PyFloat (Finite 1), PyFloat (Finite 0), PyFloat NaN, PyFloat NaN,
      PyFloat (Finite (1 / 2)), PyFloat (Finite 0), PyFloat NaN, PyFloat NaN,
      PyFloat (Finite (1 / 2)), PyFloat (Finite 0), PyFloat NaN, PyFloat NaN,
      PyFloat (Finite 0), PyFloat (Finite 0), PyFloat NaN, PyFloat NaN]"

definition two_edges_row :: "pyval list" where
  "two_edges_row =
     [PyStr ''Nonmalicious/sub/two.dot'', PyStr ''Nonmalicious'', PyInt 4,
      PyInt 2, PyFloat (Finite 1), PyFloat (Finite (1 / 6)), PyFloat NaN,
      PyFloat (Finite 0), PyFloat NaN,
      PyFloat (Finite (1 / 2)), PyFloat (Finite (1 / 3)), PyFloat (Finite 0),
      PyFloat (Finite (- (3 / 2))),
      PyFloat (Finite 0), PyFloat (Finite 0), PyFloat NaN, PyFloat NaN,
      PyFloat (Finite (1 / 6)), PyFloat (Finite (1 / 9)), PyFloat (Finite 0),
      PyFloat (Finite (- (3 / 2))),
      PyFloat (Finite 0), PyFloat (Finite 0), PyFloat NaN, PyFloat NaN]"

section \<open>Properties of the L-moment estimator\<close>

lemma finite_values_filter: "finite_values vs = map (\<lambda>v. case v of Finite x \<Rightarrow> x | _ \<Rightarrow> 0) (filter isfinite vs)"
  by (induction vs rule: finite_values.induct) simp_all

lemma length_finite_values: "length (finite_values vs) = length (filter isfinite vs)"
  by (simp add: finite_values_filter)

text \<open>
  C4.  A sequence with fewer than four finite values, whatever else it holds and
  whatever the library would do, gives exactly \<open>(0, 0, 0, 0)\<close> as a normal result.
\<close>

theorem lmoments_degenerate:
  "length (filter isfinite values) < 4 \<Longrightarrow>
   calculate_lmoments L values = Inr (PyInt 0, PyInt 0, PyInt 0, PyInt 0)"
  by (simp add: calculate_lmoments_def length_finite_values)

theorem lmoments_degenerate_witness:
  "length (filter isfinite [NaN, NaN, NaN, NaN, Finite 5]) < 4 \<and>
   calculate_lmoments example_libs [NaN, NaN, NaN, NaN, Finite 5]
     = Inr (PyInt 0, PyInt 0, PyInt 0, PyInt 0) \<and>
   calculate_lmoments example_libs [Finite 1, Finite 2]
     = Inr (PyInt 0, PyInt 0, PyInt 0, PyInt 0)"
  using lmoments_degenerate [of "[NaN, NaN, NaN, NaN, Finite 5]" example_libs]
    lmoments_degenerate [of "[Finite 1, Finite 2]" example_libs]
  by simp


subsection \<open>The sample \<open>1, 2, 3, 4, 5\<close>\<close>

lemma sample_12345: "sample_lmoments [1, 2, 3, 4, 5] = (3, 1, 0, 0)"
  by code_simp

lemma pwm_12345:
  "pwm 0 [1, 2, 3, 4, 5] = 3 \<and> pwm 1 [1, 2, 3, 4, 5] = 2 \<and>
   pwm 2 [1, 2, 3, 4, 5] = 3 / 2 \<and> pwm 3 [1, 2, 3, 4, 5] = 6 / 5"
  by code_simp

text \<open>
  C7, as amended.  With the estimator of section 4.1 for \<open>lmom_ratios\<close>, the sequence
  \<open>1, 2, 3, 4, 5\<close> gives \<open>L1 = 3\<close>, the sample mean, \<open>L2 = 1\<close>, \<open>t3 = 0\<close> and
  \<open>t4 = 0\<close>: the values that the probability-weighted moments \<open>b0 = 3\<close>, \<open>b1 = 2\<close>,
  \<open>b2 = 3/2\<close>, \<open>b3 = 6/5\<close> of the sorted sample give through \<open>L1 = b0\<close>,
  \<open>L2 = 2 b1 - b0\<close>, \<open>L3 = 6 b2 - 6 b1 + b0\<close>, \<open>L4 = 20 b3 - 30 b2 + 12 b1 - b0\<close>.
\<close>

theorem lmoments_12345:
  "calculate_lmoments (L\<lparr>lmom_ratios := lmom_ratios_spec\<rparr>) (map Finite [1, 2, 3, 4, 5])
     = Inr (PyFloat (Finite 3), PyFloat (Finite 1), PyFloat (Finite 0), PyFloat (Finite 0)) \<and>
   sample_lmoments [1, 2, 3, 4, 5]
     = (pwm 0 [1, 2, 3, 4, 5],
        2 * pwm 1 [1, 2, 3, 4, 5] - pwm 0 [1, 2, 3, 4, 5],
        6 * pwm 2 [1, 2, 3, 4, 5] - 6 * pwm 1 [1, 2, 3, 4, 5] + pwm 0 [1, 2, 3, 4, 5],
        20 * pwm 3 [1, 2, 3, 4, 5] - 30 * pwm 2 [1, 2, 3, 4, 5] + 12 * pwm 1 [1, 2, 3, 4, 5]
          - pwm 0 [1, 2, 3, 4, 5])"
proof
  show "calculate_lmoments (L\<lparr>lmom_ratios := lmom_ratios_spec\<rparr>) (map Finite [1, 2, 3, 4, 5])
     = Inr (PyFloat (Finite 3), PyFloat (Finite 1), PyFloat (Finite 0), PyFloat (Finite 0))"
    by (simp add: calculate_lmoments_def lmom_ratios_spec_def sample_12345)
next
  show "sample_lmoments [1, 2, 3, 4, 5]
     = (pwm 0 [1, 2, 3, 4, 5],
        2 * pwm 1 [1, 2, 3, 4, 5] - pwm 0 [1, 2, 3, 4, 5],
        6 * pwm 2 [1, 2, 3, 4, 5] - 6 * pwm 1 [1, 2, 3, 4, 5] + pwm 0 [1, 2, 3, 4, 5],
        20 * pwm 3 [1, 2, 3, 4, 5] - 30 * pwm 2 [1, 2, 3, 4, 5] + 12 * pwm 1 [1, 2, 3, 4, 5]
          - pwm 0 [1, 2, 3, 4, 5])"
    by code_simp
qed

text \<open>
  C7, as stated, fails: the second value of \<open>calculate_lmoments\<close> for
  \<open>1, 2, 3, 4, 5\<close> is 1, which is not \<open>4/3\<close> and lies \<open>1/3\<close> away from it.
\<close>

theorem lmoments_12345_counterexample:
  "map_sum id (fst \<circ> snd) (calculate_lmoments example_libs (map Finite [1, 2, 3, 4, 5]))
     = Inr (PyFloat (Finite 1)) \<and>
   PyFloat (Finite 1) \<noteq> PyFloat (Finite (4 / 3)) \<and> \<bar>(1::real) - 4 / 3\<bar> = 1 / 3"
proof -
  have "lmom_ratios example_libs = lmoments3_lmom_ratios"
    by (simp add: example_libs_def)
  then show ?thesis
    by (simp add: calculate_lmoments_def lmoments3_lmom_ratios_def np_divide_def sample_12345)
qed

subsection \<open>Samples without spread\<close>

lemma sum_list_upt_real: "sum_list (map real [0..<n]) = real n * (real n - 1) / 2"
  by (induction n) (simp_all add: field_simps)

lemma pwm_replicate:
  "pwm r (replicate n c)
     = sum_list (map (\<lambda>i. real (i choose r) / real ((n - 1) choose r)) [0..<n]) * c / real n"
proof -
  have "map (\<lambda>i. real (i choose r) / real ((n - 1) choose r) * (replicate n c ! i)) [0..<n]
        = map (\<lambda>i. real (i choose r) / real ((n - 1) choose r) * c) [0..<n]"
    by (rule map_cong) simp_all
  then have "sum_list (map (\<lambda>i. real (i choose r) / real ((n - 1) choose r) * (replicate n c ! i)) [0..<n])
        = sum_list (map (\<lambda>i. real (i choose r) / real ((n - 1) choose r)) [0..<n]) * c"
    by (simp only: sum_list_mult_const)
  then show ?thesis
    unfolding pwm_def Let_def length_replicate by (simp only:)
qed

lemma pwm_0_replicate: "0 < n \<Longrightarrow> pwm 0 (replicate n c) = c"
  by (simp add: pwm_replicate sum_list_triv)

lemma pwm_1_replicate: "2 \<le> n \<Longrightarrow> pwm 1 (replicate n c) = c / 2"
proof -
  assume n: "2 \<le> n"
  have "sum_list (map (\<lambda>i. real (i choose 1) / real ((n - 1) choose 1)) [0..<n])
        = sum_list (map (\<lambda>i. real i * (1 / real (n - 1))) [0..<n])"
    by simp
  also have "\<dots> = sum_list (map real [0..<n]) * (1 / real (n - 1))"
    by (simp only: sum_list_mult_const)
  also have "\<dots> = real n * (real n - 1) / 2 * (1 / real (n - 1))"
    by (simp only: sum_list_upt_real)
  also have "\<dots> = real n / 2"
  proof -
    have "real (n - 1) = real n - 1" using n by (simp add: of_nat_diff)
    moreover have "real n - 1 \<noteq> 0" using n by simp
    moreover have "\<And>a m::real. m \<noteq> 0 \<Longrightarrow> a * m / 2 * (1 / m) = a / 2" by simp
    ultimately show ?thesis by (simp only:)
  qed
  finally have "sum_list (map (\<lambda>i. real (i choose 1) / real ((n - 1) choose 1)) [0..<n])
                = real n / 2" .
  then have "pwm 1 (replicate n c) = real n / 2 * c / real n"
    by (simp only: pwm_replicate)
  also have "\<dots> = c / 2" using n by simp
  finally show ?thesis .
qed

lemma finite_values_constant:
  "\<forall>v \<in> set values. isfinite v \<longrightarrow> v = Finite c \<Longrightarrow>
   finite_values values = replicate (length (filter isfinite values)) c"
  by (induction "values" rule: finite_values.induct) auto

lemma sample_lmoments_constant:
  "2 \<le> n \<Longrightarrow> fst (snd (sample_lmoments (replicate n c))) = 0"
proof -
  assume n: "2 \<le> n"
  have "sort (replicate n c) = replicate n c"
    by (simp add: sorted_sort_id)
  moreover have "pwm 0 (replicate n c) = c" using n by (simp add: pwm_0_replicate)
  moreover have "pwm 1 (replicate n c) = c / 2" using n by (rule pwm_1_replicate)
  ultimately show ?thesis
    unfolding sample_lmoments_def Let_def by (simp only: fst_conv snd_conv)
qed

text \<open>
  \<open>calculate_lmoments\<close> itself does not look at \<open>L2\<close>: whatever four values the
  library gives for at least four finite values are returned as they are.
\<close>

lemma calculate_lmoments_passes_on:
  assumes "4 \<le> length (finite_values values)"
    and "lmom_ratios L (finite_values values) = Inr (l1, l2, t3, t4)"
  shows "calculate_lmoments L values = Inr (PyFloat l1, PyFloat l2, PyFloat t3, PyFloat t4)"
  using assms by (simp add: calculate_lmoments_def)

lemma np_divide_zero: "\<not> isfinite (np_divide x 0)"
  by (simp add: np_divide_def)

text \<open>
  With the ratios of the library, a sample of at least four finite values whose \<open>L2\<close>
  is 0 gives a third and a fourth value that are not finite; all values being the same
  is such a sample.
\<close>

lemma zero_scale_not_finite:
  assumes "4 \<le> length (filter isfinite values)"
    and "fst (snd (sample_lmoments (finite_values values))) = 0"
  shows "\<exists>l1 t3 t4.
           calculate_lmoments (L\<lparr>lmom_ratios := lmoments3_lmom_ratios\<rparr>) values
             = Inr (PyFloat (Finite l1), PyFloat (Finite 0), PyFloat t3, PyFloat t4)
           \<and> \<not> isfinite t3 \<and> \<not> isfinite t4"
proof -
  obtain l1 l2 l3 l4 where s: "sample_lmoments (finite_values values) = (l1, l2, l3, l4)"
    by (cases "sample_lmoments (finite_values values)") auto
  with assms(2) have "l2 = 0" by simp
  moreover from assms(1) have "\<not> length (finite_values values) < 4"
    by (simp add: length_finite_values)
  ultimately show ?thesis
    by (simp add: calculate_lmoments_def lmoments3_lmom_ratios_def s np_divide_zero)
qed

lemma constant_sample_not_finite:
  assumes "4 \<le> length (filter isfinite values)"
    and "\<forall>v \<in> set values. isfinite v \<longrightarrow> v = Finite c"
  shows "\<exists>l1 t3 t4.
           calculate_lmoments (L\<lparr>lmom_ratios := lmoments3_lmom_ratios\<rparr>) values
             = Inr (PyFloat (Finite l1), PyFloat (Finite 0), PyFloat t3, PyFloat t4)
           \<and> \<not> isfinite t3 \<and> \<not> isfinite t4"
proof -
  from assms(2) have "finite_values values = replicate (length (filter isfinite values)) c"
    by (rule finite_values_constant)
  moreover from assms(1) have "2 \<le> length (filter isfinite values)" by simp
  ultimately have "fst (snd (sample_lmoments (finite_values values))) = 0"
    by (simp only: sample_lmoments_constant)
  with assms(1) show ?thesis by (rule zero_scale_not_finite)
qed

text \<open>
  C3, at the failing input.  The sequence \<open>7, 7, 7, 7, 7\<close> has five finite values and
  \<open>L2 = 0\<close>.  \<open>calculate_lmoments\<close> has no test of \<open>L2\<close> and returns what the library
  gives: \<open>L1 = 7\<close>, \<open>L2 = 0\<close>, and nan for \<open>t3\<close> and for \<open>t4\<close>, not 0.
\<close>

theorem lmoments_constant_sample:
  "calculate_lmoments example_libs (map Finite [7, 7, 7, 7, 7])
     = Inr (PyFloat (Finite 7), PyFloat (Finite 0), PyFloat NaN, PyFloat NaN) \<and>
   PyFloat NaN \<noteq> PyFloat (Finite 0)"
proof -
  have "sample_lmoments [7, 7, 7, 7, 7] = (7, 0, 0, 0)" by code_simp
  then show ?thesis
    by (simp add: calculate_lmoments_def example_libs_def lmoments3_lmom_ratios_def
          np_divide_def)
qed

section \<open>Properties of \<open>process_file\<close>\<close>

lemma build_row_shape:
  assumes "build_row L file_path malware_name (n, m, ad, de, di, ac, ap) (d, b, c, k) = Inr row"
  shows "\<exists>dl bl cl kl.
           calculate_lmoments L d = Inr dl \<and> calculate_lmoments L b = Inr bl \<and>
           calculate_lmoments L c = Inr cl \<and> calculate_lmoments L k = Inr kl \<and>
           row = [PyStr file_path, PyStr malware_name, PyInt (int n), PyInt (int m),
                  ad, de, di, ac, ap]
                 @ tuple_list dl @ tuple_list bl @ tuple_list cl @ tuple_list kl"
  using assms by (auto simp: build_row_def split: sum.splits)

lemma length_tuple_list: "length (tuple_list t) = 4"
  by (cases t rule: tuple_list.cases) simp

lemma process_file_Some:
  assumes "process_file L pf (file_path, is_malicious) flog = (Some row, flog')"
  shows "\<exists>G stats series.
           PyStr file_path \<notin> pf \<and> flog' = flog \<and>
           read_dot L file_path = Inr G \<and>
           number_of_nodes L G \<noteq> 0 \<and> number_of_edges L G \<noteq> 0 \<and>
           calculate_statistics L G = Some stats \<and>
           calculate_centrality_measures L G = Some series \<and>
           build_row L file_path (if is_malicious then ''Malicious'' else ''Nonmalicious'')
             stats series = Inr row"
  using assms
  by (auto simp: process_file_def parse_network_data_def Let_def
           split: if_splits sum.splits option.splits exn.splits prod.splits)

lemma process_two_edges:
  "process_file example_libs {} (''Nonmalicious/sub/two.dot'', False) None
     = (Some two_edges_row, None)"
  by code_simp

lemma calculate_statistics_nodes:
  "calculate_statistics L G = Some stats \<Longrightarrow> fst stats = number_of_nodes L G"
  by (auto simp: calculate_statistics_def Let_def split: Option.bind_splits)

text \<open>
  C6.  For a file that parses to a graph \<open>G\<close>, \<open>process_file\<close> rejects in this order,
  each time with one failure row and no output row: a graph without nodes or without
  edges, with the message \<open>Graph is empty or couldn't be parsed.\<close>; then a failure of
  \<open>calculate_statistics\<close>, with \<open>Error calculating statistics\<close>; then a missing
  degree series, with \<open>Error calculating centrality measures\<close>.  The run goes on
  with the remaining items after an item that gave no row.
\<close>

theorem rejection_order:
  assumes "PyStr file_path \<notin> pf" and "read_dot L file_path = Inr G"
  shows "(number_of_nodes L G = 0 \<or> number_of_edges L G = 0 \<longrightarrow>
            process_file L pf (file_path, is_malicious) flog
              = (None, append_row [file_path, ''Graph is empty or couldn't be parsed.''] flog)) \<and>
         (number_of_nodes L G \<noteq> 0 \<and> number_of_edges L G \<noteq> 0 \<and>
          calculate_statistics L G = None \<longrightarrow>
            process_file L pf (file_path, is_malicious) flog
              = (None, append_row [file_path, ''Error calculating statistics''] flog)) \<and>
         (number_of_nodes L G \<noteq> 0 \<and> number_of_edges L G \<noteq> 0 \<and>
          calculate_statistics L G \<noteq> None \<and> calculate_centrality_measures L G = None \<longrightarrow>
            process_file L pf (file_path, is_malicious) flog
              = (None, append_row [file_path, ''Error calculating centrality measures''] flog)) \<and>
         (fst (process_file L pf (file_path, is_malicious) (unprocessed_files_log st)) = None \<longrightarrow>
            dispatch L pf ((file_path, is_malicious) # rest) st
              = dispatch L pf rest
                  (st\<lparr>unprocessed_files_log :=
                        snd (process_file L pf (file_path, is_malicious)
                               (unprocessed_files_log st))\<rparr>))"
proof (intro conjI impI)
  assume "number_of_nodes L G = 0 \<or> number_of_edges L G = 0"
  with assms show "process_file L pf (file_path, is_malicious) flog
      = (None, append_row [file_path, ''Graph is empty or couldn't be parsed.''] flog)"
    by (simp add: process_file_def parse_network_data_def log_unprocessed_file_def)
next
  assume "number_of_nodes L G \<noteq> 0 \<and> number_of_edges L G \<noteq> 0 \<and> calculate_statistics L G = None"
  with assms show "process_file L pf (file_path, is_malicious) flog
      = (None, append_row [file_path, ''Error calculating statistics''] flog)"
    by (simp add: process_file_def parse_network_data_def log_unprocessed_file_def)
next
  assume a: "number_of_nodes L G \<noteq> 0 \<and> number_of_edges L G \<noteq> 0 \<and>
    calculate_statistics L G \<noteq> None \<and> calculate_centrality_measures L G = None"
  then obtain stats where s: "calculate_statistics L G = Some stats" by auto
  with a have "fst stats \<noteq> 0" by (simp add: calculate_statistics_nodes)
  with a s assms show "process_file L pf (file_path, is_malicious) flog
      = (None, append_row [file_path, ''Error calculating centrality measures''] flog)"
    by (simp add: process_file_def parse_network_data_def log_unprocessed_file_def)
next
  assume "fst (process_file L pf (file_path, is_malicious) (unprocessed_files_log st)) = None"
  then show "dispatch L pf ((file_path, is_malicious) # rest) st
      = dispatch L pf rest
          (st\<lparr>unprocessed_files_log :=
                snd (process_file L pf (file_path, is_malicious) (unprocessed_files_log st))\<rparr>)"
    by (cases "process_file L pf (file_path, is_malicious) (unprocessed_files_log st)") simp
qed

lemma process_lone:
  "process_file example_libs {} (''Nonmalicious/lone.dot'', False) None
     = (None, Some [[''Nonmalicious/lone.dot'', ''Graph is empty or couldn't be parsed.'']])"
  by code_simp

lemma process_edge:
  "process_file example_libs {} (''Malicious/edge.dot'', True) None
     = (None, Some [[''Malicious/edge.dot'', ''Error calculating statistics'']])"
  by code_simp

lemma process_heavy:
  "process_file example_libs {} (''Malicious/heavy.dot'', True) None
     = (None, Some [[''Malicious/heavy.dot'', ''Error calculating centrality measures'']])"
  by code_simp

theorem rejection_order_witness:
  "process_file example_libs {} (''Nonmalicious/lone.dot'', False) None
     = (None, Some [[''Nonmalicious/lone.dot'', ''Graph is empty or couldn't be parsed.'']]) \<and>
   process_file example_libs {} (''Malicious/edge.dot'', True) None
     = (None, Some [[''Malicious/edge.dot'', ''Error calculating statistics'']]) \<and>
   process_file example_libs {} (''Malicious/heavy.dot'', True) None
     = (None, Some [[''Malicious/heavy.dot'', ''Error calculating centrality measures'']]) \<and>
   dispatch example_libs {} [(''Malicious/edge.dot'', True), (''Malicious/cycle.dot'', True)] no_files
     = dispatch example_libs {} [(''Malicious/cycle.dot'', True)]
         (no_files\<lparr>unprocessed_files_log :=
            Some [[''Malicious/edge.dot'', ''Error calculating statistics'']]\<rparr>)"
proof -
  have l: "PyStr ''Nonmalicious/lone.dot'' \<notin> {}" "PyStr ''Malicious/edge.dot'' \<notin> {}"
    "PyStr ''Malicious/heavy.dot'' \<notin> {}" by simp_all
  have r: "read_dot example_libs ''Nonmalicious/lone.dot'' = Inr (DiGraph Lone)"
    "read_dot example_libs ''Malicious/edge.dot'' = Inr (DiGraph Edge)"
    "read_dot example_libs ''Malicious/heavy.dot'' = Inr (DiGraph Heavy)"
    by code_simp+
  have e: "number_of_nodes example_libs (DiGraph Lone) \<noteq> 0"
    "number_of_edges example_libs (DiGraph Lone) = 0"
    "number_of_nodes example_libs (DiGraph Edge) \<noteq> 0"
    "number_of_edges example_libs (DiGraph Edge) \<noteq> 0"
    "calculate_statistics example_libs (DiGraph Edge) = None"
    "number_of_nodes example_libs (DiGraph Heavy) \<noteq> 0"
    "number_of_edges example_libs (DiGraph Heavy) \<noteq> 0"
    "calculate_statistics example_libs (DiGraph Heavy) \<noteq> None"
    "calculate_centrality_measures example_libs (DiGraph Heavy) = None"
    by code_simp+
  have u: "unprocessed_files_log no_files = None" by (simp add: no_files_def)
  show ?thesis
    using rejection_order [OF l(1) r(1), of False None no_files "[]"]
      rejection_order [OF l(2) r(2), of True None no_files "[(''Malicious/cycle.dot'', True)]"]
      rejection_order [OF l(3) r(3), of True None no_files "[]"]
    by (simp add: e u append_row_def rows_def process_edge)
qed






lemma foldl_fadd_Finite: "foldl fadd (Finite a) (map Finite xs) = Finite (a + sum_list xs)"
  by (induction xs arbitrary: a) (simp_all add: add.assoc)

lemma centrality_degree:
  assumes "calculate_centrality_measures L G = Some (d, b, c, k)"
  shows "\<exists>A. to_numpy_array L G = Inr A \<and>
           d = map (np_sum L) (map (map (astype_float32 L)) A)"
  using assms
  by (auto simp: calculate_centrality_measures_def calculate_degree_centrality_def attempt_def
        Let_def split: Option.bind_splits sum.splits)

text \<open>
  C10.  The degree series that \<open>process_file\<close> gives to \<open>calculate_lmoments\<close> (its
  result fills the fields 9 to 12 of the row) is the list of the sums numpy forms of the
  rows of the matrix \<open>nx.to_numpy_array(G)\<close>, each entry cast to single precision, with
  no division by the number of nodes.  When the matrix has one row for each node, as
  \<open>to_numpy_array\<close> promises, the series has one entry for each node, the sum of the
  row of that node; and where the cast and the sum are exact, as for entries 0 and 1,
  each entry of the series is the exact sum of the row.
\<close>

theorem degree_series_row_sums:
  assumes "process_file L pf (file_path, is_malicious) flog = (Some row, flog')"
    and "read_dot L file_path = Inr G"
    and "one_row_per_node L G"
  shows "\<exists>A dl.
           to_numpy_array L G = Inr A \<and>
           calculate_lmoments L (map (np_sum L) (map (map (astype_float32 L)) A)) = Inr dl \<and>
           take 4 (drop 9 row) = tuple_list dl \<and>
           length (map (np_sum L) (map (map (astype_float32 L)) A)) = number_of_nodes L G \<and>
           (\<forall>i < number_of_nodes L G.
              map (np_sum L) (map (map (astype_float32 L)) A) ! i
                = np_sum L (map (astype_float32 L) (A ! i))) \<and>
           (\<forall>X. A = map (map Finite) X \<and>
                (\<forall>r \<in> set X. \<forall>x \<in> set r. astype_float32 L (Finite x) = Finite x) \<and>
                (\<forall>r \<in> set X. np_sum L (map Finite r) = Finite (sum_list r)) \<longrightarrow>
                map (np_sum L) (map (map (astype_float32 L)) A)
                  = map (\<lambda>r. Finite (sum_list r)) X)"
proof -
  from process_file_Some [OF assms(1)] assms(2) obtain stats series where
    se: "calculate_centrality_measures L G = Some series" and
    br: "build_row L file_path (if is_malicious then ''Malicious'' else ''Nonmalicious'')
           stats series = Inr row"
    by auto
  obtain n m ad de di ac ap where stats: "stats = (n, m, ad, de, di, ac, ap)"
    by (cases stats) auto
  obtain d b c k where series: "series = (d, b, c, k)"
    by (cases series) auto
  from centrality_degree [OF se [unfolded series]] obtain A where
    A: "to_numpy_array L G = Inr A" and
    d: "d = map (np_sum L) (map (map (astype_float32 L)) A)"
    by blast
  from build_row_shape [OF br [unfolded stats series]] obtain dl bl cl kl where
    dl: "calculate_lmoments L d = Inr dl" and
    row: "row = [PyStr file_path,
                 PyStr (if is_malicious then ''Malicious'' else ''Nonmalicious''),
                 PyInt (int n), PyInt (int m), ad, de, di, ac, ap]
                @ tuple_list dl @ tuple_list bl @ tuple_list cl @ tuple_list kl"
    by blast
  have t: "take 4 (drop 9 row) = tuple_list dl"
    by (simp add: row length_tuple_list)
  from assms(3) A have len: "length A = number_of_nodes L G"
    by (simp add: one_row_per_node_def)
  then have l: "length (map (np_sum L) (map (map (astype_float32 L)) A)) = number_of_nodes L G"
    by simp
  have e: "\<forall>i < number_of_nodes L G.
      map (np_sum L) (map (map (astype_float32 L)) A) ! i
        = np_sum L (map (astype_float32 L) (A ! i))"
    using len by simp
  have x: "map (np_sum L) (map (map (astype_float32 L)) A) = map (\<lambda>r. Finite (sum_list r)) X"
    if "A = map (map Finite) X"
      and c: "\<forall>r \<in> set X. \<forall>x \<in> set r. astype_float32 L (Finite x) = Finite x"
      and u: "\<forall>r \<in> set X. np_sum L (map Finite r) = Finite (sum_list r)" for X
  proof -
    have m: "map (astype_float32 L) (map Finite r) = map Finite r" if "r \<in> set X" for r
      using c that by (simp add: map_idI)
    have "map (np_sum L \<circ> (map (astype_float32 L) \<circ> map Finite)) X
          = map (\<lambda>r. Finite (sum_list r)) X"
      by (rule map_cong [OF refl]) (use u in \<open>simp only: comp_apply m\<close>)
    then show ?thesis
      unfolding that(1) map_map .
  qed
  from A dl [unfolded d] t l e x show ?thesis
    by blast
qed

lemma process_cycle:
  "process_file example_libs {} (''Malicious/cycle.dot'', True) None = (Some cycle_row, None)"
  by code_simp

theorem degree_series_row_sums_witness:
  "process_file example_libs {} (''Malicious/cycle.dot'', True) None = (Some cycle_row, None) \<and>
   read_dot example_libs ''Malicious/cycle.dot'' = Inr (DiGraph Cycle4) \<and>
   one_row_per_node example_libs (DiGraph Cycle4) \<and>
   number_of_nodes example_libs (DiGraph Cycle4) = 4 \<and>
   to_numpy_array example_libs (DiGraph Cycle4)
     = Inr (map (map Finite) [[0, 1, 0, 0], [0, 0, 1, 0], [0, 0, 0, 1], [1, 0, 0, 0]]) \<and>
   calculate_lmoments example_libs (map Finite [1, 1, 1, 1])
     = Inr (PyFloat (Finite 1), PyFloat (Finite 0), PyFloat NaN, PyFloat NaN) \<and>
   take 4 (drop 9 cycle_row) = [PyFloat (Finite 1), PyFloat (Finite 0), PyFloat NaN, PyFloat NaN]"
proof -
  have a: "to_numpy_array example_libs (DiGraph Cycle4)
       = Inr (map (map Finite) [[0, 1, 0, 0], [0, 0, 1, 0], [0, 0, 0, 1], [1, 0, 0, 0]])"
    by code_simp
  have b: "calculate_lmoments example_libs (map Finite [1, 1, 1, 1])
       = Inr (PyFloat (Finite 1), PyFloat (Finite 0), PyFloat NaN, PyFloat NaN)"
    by code_simp
  have c: "read_dot example_libs ''Malicious/cycle.dot'' = Inr (DiGraph Cycle4)"
    by code_simp
  have o: "one_row_per_node example_libs (DiGraph Cycle4)"
    "number_of_nodes example_libs (DiGraph Cycle4) = 4"
    by code_simp+
  have t: "take 4 (drop 9 cycle_row)
      = [PyFloat (Finite 1), PyFloat (Finite 0), PyFloat NaN, PyFloat NaN]"
    by (simp add: cycle_row_def)
  from degree_series_row_sums [OF process_cycle c o(1)] a b c o t process_cycle show ?thesis
    by simp
qed

subsection \<open>The statistics of a graph\<close>

lemma statistics_disconnected:
  assumes "nx_is_connected L (to_undirected L G) = Inr False"
    and "nx_density L G = Inr de" and "nx_average_clustering L (to_undirected L G) = Inr ac"
  shows "\<exists>ad. calculate_statistics L G
           = Some (number_of_nodes L G, number_of_edges L G, ad, de, PyFloat NaN, ac, PyFloat NaN)"
  using assms by (simp add: calculate_statistics_def attempt_def Let_def)

lemma statistics_connected:
  assumes "nx_is_connected L (to_undirected L G) = Inr True"
  shows "calculate_statistics L G = Some (n, m, ad, de, di, ac, ap) \<longleftrightarrow>
         n = number_of_nodes L G \<and> m = number_of_edges L G \<and>
         ad = (if 0 < number_of_nodes L G
               then PyFloat (Finite (real_of_int (sum_list (nx_degree L G)) / real (number_of_nodes L G)))
               else PyInt 0) \<and>
         nx_density L G = Inr de \<and> nx_diameter L G = Inr di \<and>
         nx_average_clustering L (to_undirected L G) = Inr ac \<and>
         nx_average_shortest_path_length L G = Inr ap"
  using assms
  by (auto simp: calculate_statistics_def attempt_def Let_def split: Option.bind_splits sum.splits)

text \<open>
  C2, at the failing input.  The file \<open>Malicious/edge.dot\<close> holds the single edge
  \<open>a -> b\<close>: its undirected projection is connected, \<open>nx.diameter\<close> raises on the
  directed graph, \<open>calculate_statistics\<close> returns \<open>None\<close>, and the item is rejected
  with \<open>Error calculating statistics\<close> instead of a row with a diameter.
\<close>

theorem statistics_weakly_connected:
  "read_dot example_libs ''Malicious/edge.dot'' = Inr (DiGraph Edge) \<and>
   nx_is_connected example_libs (to_undirected example_libs (DiGraph Edge)) = Inr True \<and>
   nx_diameter example_libs (DiGraph Edge)
     = Inl (Exn ''Found infinite path length because the digraph is not strongly connected'') \<and>
   calculate_statistics example_libs (DiGraph Edge) = None \<and>
   process_file example_libs {} (''Malicious/edge.dot'', True) None
     = (None, Some [[''Malicious/edge.dot'', ''Error calculating statistics'']])"
  by code_simp

subsection \<open>Failure rows\<close>

lemma parse_failure_rows:
  assumes "PyStr file_path \<notin> pf" and "read_dot L file_path = Inl (Exn e)"
  shows "process_file L pf (file_path, is_malicious) flog
           = (None, Some (rows flog @ [[file_path, ''Error parsing: '' @ e],
                                       [file_path, ''Graph is empty or couldn't be parsed.'']]))"
  using assms
  by (simp add: process_file_def parse_network_data_def log_unprocessed_file_def append_row_def
        rows_def)

text \<open>
  C5, at the failing input.  The file \<open>Nonmalicious/bad.dot\<close> does not parse:
  \<open>parse_network_data\<close> writes a failure row and \<open>process_file\<close> writes a second one,
  so that the failure log of the run holds two rows for this one file.
\<close>

theorem parse_failure_logged_twice:
  "process_file example_libs {} (''Nonmalicious/bad.dot'', False) None
     = (None, Some [[''Nonmalicious/bad.dot'', ''Error parsing: syntax error''],
                    [''Nonmalicious/bad.dot'', ''Graph is empty or couldn't be parsed.'']]) \<and>
   length (filter (\<lambda>r. hd r = ''Nonmalicious/bad.dot'')
             (rows (unprocessed_files_log (main example_libs no_files)))) = 2"
  by code_simp


section \<open>Properties of a run\<close>


lemma rows_simps [simp]: "rows None = []" "rows (Some rs) = rs"
  by (simp_all add: rows_def)

lemma log_append: "log_unprocessed_file p m flog = Some (rows flog @ [[p, m]])"
  by (simp add: log_unprocessed_file_def append_row_def)

lemma process_file_fst:
  "fst (process_file L ws a flog) = fst (process_file L ws a None)"
  by (cases a)
     (simp add: process_file_def parse_network_data_def Let_def
        split: sum.splits option.splits exn.splits prod.splits)

lemma process_file_snd:
  "snd (process_file L ws a flog)
     = (if rows (snd (process_file L ws a None)) = [] then flog
        else Some (rows flog @ rows (snd (process_file L ws a None))))"
  by (cases a)
     (simp add: process_file_def parse_network_data_def log_append Let_def
        split: sum.splits option.splits exn.splits prod.splits)

lemma process_file_head:
  assumes "fst (process_file L ws (p, l) flog) = Some row"
  shows "PyStr p \<notin> ws \<and> (\<exists>rest. row = PyStr p # rest)"
  using assms
  by (auto simp: process_file_def parse_network_data_def Let_def build_row_def
      split: if_splits sum.splits option.splits exn.splits prod.splits)

lemma process_file_worker_set:
  assumes "PyStr (fst a) \<notin> ws" and "PyStr (fst a) \<notin> ws'"
  shows "process_file L ws a flog = process_file L ws' a flog"
  using assms by (cases a) (simp add: process_file_def)



lemma accepted_Nil [simp]: "accepted L ws [] = []"
  by (simp add: accepted_def map_filter_simps)

lemma accepted_Cons:
  "accepted L ws (a # ps)
     = (case fst (process_file L ws a None) of None \<Rightarrow> accepted L ws ps
        | Some row \<Rightarrow> row # accepted L ws ps)"
  by (simp add: accepted_def map_filter_simps split: option.splits)

lemma dispatch_step:
  "dispatch L ws (a # ps) st
     = dispatch L ws ps
         \<lparr>output_csv = (case fst (process_file L ws a None) of
                          None \<Rightarrow> output_csv st
                        | Some row \<Rightarrow> Some (rows (output_csv st) @ [map (csv_field L) row])),
          unprocessed_files_log = snd (process_file L ws a (unprocessed_files_log st)),
          processed_files = (case fst (process_file L ws a None) of
                               None \<Rightarrow> processed_files st
                             | Some row \<Rightarrow> insert (PyStr (fst a)) (processed_files st))\<rparr>"
proof (cases "process_file L ws a (unprocessed_files_log st)")
  case (Pair res flog)
  then have f: "fst (process_file L ws a None) = res"
    using process_file_fst [of L ws a "unprocessed_files_log st"] by simp
  show ?thesis
  proof (cases res)
    case None
    with Pair f show ?thesis by (cases st) simp
  next
    case (Some row)
    with Pair have "fst (process_file L ws (fst a, snd a) (unprocessed_files_log st)) = Some row"
      by simp
    from process_file_head [OF this] obtain rest where "row = PyStr (fst a) # rest"
      by blast
    with Pair f Some show ?thesis
      by (cases st) (simp add: write_result_to_csv_def append_row_def)
  qed
qed

lemma dispatch_output:
  "rows (output_csv (dispatch L ws ps st))
     = rows (output_csv st) @ map (map (csv_field L)) (accepted L ws ps)"
proof (induction ps arbitrary: st)
  case Nil
  show ?case by simp
next
  case (Cons a ps)
  show ?case
    by (simp only: dispatch_step Cons.IH)
       (simp add: accepted_Cons split: option.splits)
qed

lemma dispatch_output_exists:
  "output_csv st \<noteq> None \<Longrightarrow> output_csv (dispatch L ws ps st) \<noteq> None"
proof (induction ps arbitrary: st)
  case Nil
  then show ?case by simp
next
  case (Cons a ps)
  have "output_csv \<lparr>output_csv = (case fst (process_file L ws a None) of
                          None \<Rightarrow> output_csv st
                        | Some row \<Rightarrow> Some (rows (output_csv st) @ [map (csv_field L) row])),
          unprocessed_files_log = snd (process_file L ws a (unprocessed_files_log st)),
          processed_files = (case fst (process_file L ws a None) of
                               None \<Rightarrow> processed_files st
                             | Some row \<Rightarrow> insert (PyStr (fst a)) (processed_files st))\<rparr> \<noteq> None"
    using Cons.prems by (simp split: option.splits)
  then show ?case
    unfolding dispatch_step by (rule Cons.IH)
qed

lemma dispatch_log:
  "prefix (rows (unprocessed_files_log st)) (rows (unprocessed_files_log (dispatch L ws ps st)))"
proof (induction ps arbitrary: st)
  case Nil
  show ?case by simp
next
  case (Cons a ps)
  have "prefix (rows (unprocessed_files_log st))
          (rows (snd (process_file L ws a (unprocessed_files_log st))))"
    by (subst process_file_snd) simp
  moreover have "prefix (rows (snd (process_file L ws a (unprocessed_files_log st))))
          (rows (unprocessed_files_log (dispatch L ws (a # ps) st)))"
    using Cons.IH [of "\<lparr>output_csv = (case fst (process_file L ws a None) of
                          None \<Rightarrow> output_csv st
                        | Some row \<Rightarrow> Some (rows (output_csv st) @ [map (csv_field L) row])),
          unprocessed_files_log = snd (process_file L ws a (unprocessed_files_log st)),
          processed_files = (case fst (process_file L ws a None) of
                               None \<Rightarrow> processed_files st
                             | Some row \<Rightarrow> insert (PyStr (fst a)) (processed_files st))\<rparr>"]
    by (simp only: dispatch_step state.simps)
  ultimately show ?case by (rule prefix_order.trans)
qed

lemma dispatch_log_exists:
  "unprocessed_files_log st \<noteq> None \<Longrightarrow> unprocessed_files_log (dispatch L ws ps st) \<noteq> None"
proof (induction ps arbitrary: st)
  case Nil
  then show ?case by simp
next
  case (Cons a ps)
  have "snd (process_file L ws a (unprocessed_files_log st)) \<noteq> None"
    using Cons.prems by (subst process_file_snd) simp
  then show ?case
    by (simp only: dispatch_step) (rule Cons.IH, simp)
qed

lemma get_processed_files_identities: "get_processed_files f = set (identities f)"
  by (cases f) (simp_all add: get_processed_files_def identities_def)

lemma main_output:
  "rows (output_csv (main L st))
     = (if file_paths L (get_processed_files (output_csv st)) = [] then rows (output_csv st)
        else (if rows (output_csv st) = [] then [columns] else rows (output_csv st))
             @ map (map (csv_field L))
                 (accepted L (get_processed_files (output_csv st))
                    (file_paths L (get_processed_files (output_csv st)))))"
  by (simp add: main_def Let_def dispatch_output append_row_def)

lemma main_output_exists:
  "output_csv (main L st) \<noteq> None
     \<longleftrightarrow> output_csv st \<noteq> None \<or> file_paths L (get_processed_files (output_csv st)) \<noteq> []"
proof (cases "file_paths L (get_processed_files (output_csv st)) = []")
  case True
  then show ?thesis by (simp add: main_def Let_def)
next
  case False
  have "output_csv (dispatch L ws ps \<lparr>output_csv = Some rs, unprocessed_files_log = u,
          processed_files = pf\<rparr>) \<noteq> None" for ws ps rs u pf
    by (rule dispatch_output_exists) simp
  with False show ?thesis
    by (simp add: main_def Let_def append_row_def)
qed

lemma prefix_tl: "prefix xs ys \<Longrightarrow> prefix (tl xs) (tl ys)"
  by (cases xs) (auto simp: prefix_def)

lemma identities_mono:
  assumes "prefix (rows f) (rows g)"
  shows "set (identities f) \<subseteq> set (identities g)"
proof -
  from assms have "prefix (tl (rows f)) (tl (rows g))" by (rule prefix_tl)
  then have "set (tl (rows f)) \<subseteq> set (tl (rows g))" by (rule set_mono_prefix)
  then show ?thesis by (auto simp: identities_def)
qed

lemma accepted_member:
  assumes "row \<in> set (accepted L ws ps)"
  shows "\<exists>a \<in> set ps. fst (process_file L ws a None) = Some row"
  using assms by (induction ps) (auto simp: accepted_Cons split: option.splits)

lemma written_row:
  assumes "fst (process_file L ws a None) = Some row"
  shows "length (map (csv_field L) row) = 25 \<and> map (csv_field L) row ! 0 = fst a \<and>
         map (csv_field L) row ! 1 = (if snd a then ''Malicious'' else ''Nonmalicious'')"
proof -
  obtain flog' where p: "process_file L ws (fst a, snd a) None = (Some row, flog')"
    using assms by (cases "process_file L ws a None") simp
  from process_file_Some [OF p] obtain stats series where
    br: "build_row L (fst a) (if snd a then ''Malicious'' else ''Nonmalicious'')
           stats series = Inr row"
    by blast
  obtain n m ad de di ac ap where stats: "stats = (n, m, ad, de, di, ac, ap)"
    by (cases stats) auto
  obtain d b c k where series: "series = (d, b, c, k)"
    by (cases series) auto
  from build_row_shape [OF br [unfolded stats series]] obtain dl bl cl kl where
    "row = [PyStr (fst a), PyStr (if snd a then ''Malicious'' else ''Nonmalicious''),
            PyInt (int n), PyInt (int m), ad, de, di, ac, ap]
           @ tuple_list dl @ tuple_list bl @ tuple_list cl @ tuple_list kl"
    by blast
  then show ?thesis
    by (simp add: length_tuple_list csv_field_def)
qed

text \<open>
  C8.  A row returned by \<open>process_file\<close> has 25 fields, and pairs with the header in
  this order: the path under \<open>Filename\<close>, the label \<open>Malicious\<close> or \<open>Nonmalicious\<close>,
  the seven statistics of \<open>calculate_statistics\<close>, and the four values of
  \<open>calculate_lmoments\<close> for the degree, betweenness, closeness and clustering series,
  degenerate or not.  Every row that a run appends to the output file is the header or
  the text of a row that \<open>process_file\<close> returned for a work item of the run: it has 25
  fields, its first field is the path of the item and its second the label of the item.
\<close>

theorem feature_row_schema:
  "(process_file L pf (file_path, is_malicious) flog = (Some row, flog') \<longrightarrow>
      length row = 25 \<and> length columns = 25 \<and>
      (\<exists>G n m ad de di ac ap d b c k d1 d2 d3 d4 b1 b2 b3 b4 c1 c2 c3 c4 k1 k2 k3 k4.
         read_dot L file_path = Inr G \<and>
         calculate_statistics L G = Some (n, m, ad, de, di, ac, ap) \<and>
         calculate_centrality_measures L G = Some (d, b, c, k) \<and>
         calculate_lmoments L d = Inr (d1, d2, d3, d4) \<and>
         calculate_lmoments L b = Inr (b1, b2, b3, b4) \<and>
         calculate_lmoments L c = Inr (c1, c2, c3, c4) \<and>
         calculate_lmoments L k = Inr (k1, k2, k3, k4) \<and>
         zip columns row =
           [(''Filename'', PyStr file_path),
            (''Malicious/Nonmalicious'',
             PyStr (if is_malicious then ''Malicious'' else ''Nonmalicious'')),
            (''Number of Nodes'', PyInt (int n)), (''Number of Edges'', PyInt (int m)),
            (''Average Degree'', ad), (''Density'', de), (''Diameter'', di),
            (''Average Clustering'', ac), (''Average Path Length'', ap),
            (''Degree L1'', d1), (''Degree L2'', d2), (''Degree T3'', d3), (''Degree T4'', d4),
            (''Betweenness L1'', b1), (''Betweenness L2'', b2), (''Betweenness T3'', b3),
            (''Betweenness T4'', b4),
            (''Closeness L1'', c1), (''Closeness L2'', c2), (''Closeness T3'', c3),
            (''Closeness T4'', c4),
            (''Clustering L1'', k1), (''Clustering L2'', k2), (''Clustering T3'', k3),
            (''Clustering T4'', k4)])) \<and>
   (\<exists>new. rows (output_csv (main L st)) = rows (output_csv st) @ new \<and>
      (\<forall>r \<in> set new.
         r = columns \<or>
         (\<exists>a row. a \<in> set (file_paths L (get_processed_files (output_csv st))) \<and>
            (\<forall>flog. fst (process_file L (get_processed_files (output_csv st)) a flog)
                      = Some row) \<and>
            r = map (csv_field L) row \<and> length r = 25 \<and> r ! 0 = fst a \<and>
            r ! 1 = (if snd a then ''Malicious'' else ''Nonmalicious''))))"
proof (intro conjI impI)
  assume p: "process_file L pf (file_path, is_malicious) flog = (Some row, flog')"
  from process_file_Some [OF p] obtain G stats series where
    G: "read_dot L file_path = Inr G" and
    st: "calculate_statistics L G = Some stats" and
    se: "calculate_centrality_measures L G = Some series" and
    br: "build_row L file_path (if is_malicious then ''Malicious'' else ''Nonmalicious'')
           stats series = Inr row"
    by blast
  obtain n m ad de di ac ap where stats: "stats = (n, m, ad, de, di, ac, ap)"
    by (cases stats) auto
  obtain d b c k where series: "series = (d, b, c, k)"
    by (cases series) auto
  from build_row_shape [OF br [unfolded stats series]] obtain dl bl cl kl where
    lm: "calculate_lmoments L d = Inr dl" "calculate_lmoments L b = Inr bl"
        "calculate_lmoments L c = Inr cl" "calculate_lmoments L k = Inr kl" and
    row: "row = [PyStr file_path,
                 PyStr (if is_malicious then ''Malicious'' else ''Nonmalicious''),
                 PyInt (int n), PyInt (int m), ad, de, di, ac, ap]
                @ tuple_list dl @ tuple_list bl @ tuple_list cl @ tuple_list kl"
    by blast
  obtain d1 d2 d3 d4 where dl: "dl = (d1, d2, d3, d4)" by (cases dl) auto
  obtain b1 b2 b3 b4 where bl: "bl = (b1, b2, b3, b4)" by (cases bl) auto
  obtain c1 c2 c3 c4 where cl: "cl = (c1, c2, c3, c4)" by (cases cl) auto
  obtain k1 k2 k3 k4 where kl: "kl = (k1, k2, k3, k4)" by (cases kl) auto
  show "length row = 25"
    by (simp add: row length_tuple_list)
  show "length columns = 25"
    by (simp add: columns_def)
  have z: "zip columns row =
           [(''Filename'', PyStr file_path),
            (''Malicious/Nonmalicious'',
             PyStr (if is_malicious then ''Malicious'' else ''Nonmalicious'')),
            (''Number of Nodes'', PyInt (int n)), (''Number of Edges'', PyInt (int m)),
            (''Average Degree'', ad), (''Density'', de), (''Diameter'', di),
            (''Average Clustering'', ac), (''Average Path Length'', ap),
            (''Degree L1'', d1), (''Degree L2'', d2), (''Degree T3'', d3), (''Degree T4'', d4),
            (''Betweenness L1'', b1), (''Betweenness L2'', b2), (''Betweenness T3'', b3),
            (''Betweenness T4'', b4),
            (''Closeness L1'', c1), (''Closeness L2'', c2), (''Closeness T3'', c3),
            (''Closeness T4'', c4),
            (''Clustering L1'', k1), (''Clustering L2'', k2), (''Clustering T3'', k3),
            (''Clustering T4'', k4)]"
    by (simp add: row dl bl cl kl columns_def)
  from G st [unfolded stats] se [unfolded series] lm [unfolded dl bl cl kl] z
  show "\<exists>G n m ad de di ac ap d b c k d1 d2 d3 d4 b1 b2 b3 b4 c1 c2 c3 c4 k1 k2 k3 k4.
         read_dot L file_path = Inr G \<and>
         calculate_statistics L G = Some (n, m, ad, de, di, ac, ap) \<and>
         calculate_centrality_measures L G = Some (d, b, c, k) \<and>
         calculate_lmoments L d = Inr (d1, d2, d3, d4) \<and>
         calculate_lmoments L b = Inr (b1, b2, b3, b4) \<and>
         calculate_lmoments L c = Inr (c1, c2, c3, c4) \<and>
         calculate_lmoments L k = Inr (k1, k2, k3, k4) \<and>
         zip columns row =
           [(''Filename'', PyStr file_path),
            (''Malicious/Nonmalicious'',
             PyStr (if is_malicious then ''Malicious'' else ''Nonmalicious'')),
            (''Number of Nodes'', PyInt (int n)), (''Number of Edges'', PyInt (int m)),
            (''Average Degree'', ad), (''Density'', de), (''Diameter'', di),
            (''Average Clustering'', ac), (''Average Path Length'', ap),
            (''Degree L1'', d1), (''Degree L2'', d2), (''Degree T3'', d3), (''Degree T4'', d4),
            (''Betweenness L1'', b1), (''Betweenness L2'', b2), (''Betweenness T3'', b3),
            (''Betweenness T4'', b4),
            (''Closeness L1'', c1), (''Closeness L2'', c2), (''Closeness T3'', c3),
            (''Closeness T4'', c4),
            (''Clustering L1'', k1), (''Clustering L2'', k2), (''Clustering T3'', k3),
            (''Clustering T4'', k4)]"
    by (intro exI conjI) assumption+
next
  let ?ledger = "get_processed_files (output_csv st)"
  let ?new = "if file_paths L ?ledger = [] then []
              else (if rows (output_csv st) = [] then [columns] else [])
                   @ map (map (csv_field L)) (accepted L ?ledger (file_paths L ?ledger))"
  have r: "rows (output_csv (main L st)) = rows (output_csv st) @ ?new"
    by (simp add: main_output)
  have "r = columns \<or>
         (\<exists>a row. a \<in> set (file_paths L ?ledger) \<and>
            (\<forall>flog. fst (process_file L ?ledger a flog) = Some row) \<and>
            r = map (csv_field L) row \<and> length r = 25 \<and> r ! 0 = fst a \<and>
            r ! 1 = (if snd a then ''Malicious'' else ''Nonmalicious''))"
    if "r \<in> set ?new" for r
  proof (cases "r = columns")
    case True
    then show ?thesis by simp
  next
    case False
    with that obtain row where "row \<in> set (accepted L ?ledger (file_paths L ?ledger))"
      and rr: "r = map (csv_field L) row"
      by (auto split: if_splits)
    from accepted_member [OF this(1)] obtain a where
      a: "a \<in> set (file_paths L ?ledger)" and
      f: "fst (process_file L ?ledger a None) = Some row"
      by blast
    have "\<forall>flog. fst (process_file L ?ledger a flog) = Some row"
    proof
      fix flog
      from process_file_fst [of L ?ledger a flog] f
      show "fst (process_file L ?ledger a flog) = Some row"
        by (rule trans)
    qed
    with a rr written_row [OF f] show ?thesis
      by blast
  qed
  with r show "\<exists>new. rows (output_csv (main L st)) = rows (output_csv st) @ new \<and>
      (\<forall>r \<in> set new.
         r = columns \<or>
         (\<exists>a row. a \<in> set (file_paths L ?ledger) \<and>
            (\<forall>flog. fst (process_file L ?ledger a flog) = Some row) \<and>
            r = map (csv_field L) row \<and> length r = 25 \<and> r ! 0 = fst a \<and>
            r ! 1 = (if snd a then ''Malicious'' else ''Nonmalicious'')))"
    by blast
qed

lemma first_run_rows:
  "rows (output_csv (main example_libs no_files))
     = [columns, map (csv_field example_libs) cycle_row,
        map (csv_field example_libs) two_edges_row]"
  by code_simp

theorem feature_row_schema_witness:
  "process_file example_libs {} (''Nonmalicious/sub/two.dot'', False) None
     = (Some two_edges_row, None) \<and>
   length two_edges_row = 25 \<and>
   two_edges_row ! 0 = PyStr ''Nonmalicious/sub/two.dot'' \<and>
   two_edges_row ! 1 = PyStr ''Nonmalicious'' \<and>
   two_edges_row ! 6 = PyFloat NaN \<and>
   rows (output_csv (main example_libs no_files))
     = [columns, map (csv_field example_libs) cycle_row,
        map (csv_field example_libs) two_edges_row] \<and>
   map (csv_field example_libs) two_edges_row ! 0 = ''Nonmalicious/sub/two.dot'' \<and>
   map (csv_field example_libs) two_edges_row ! 1 = ''Nonmalicious''"
proof -
  have "two_edges_row ! 0 = PyStr ''Nonmalicious/sub/two.dot''"
    "two_edges_row ! 1 = PyStr ''Nonmalicious''" "two_edges_row ! 6 = PyFloat NaN"
    "map (csv_field example_libs) two_edges_row ! 0 = ''Nonmalicious/sub/two.dot''"
    "map (csv_field example_libs) two_edges_row ! 1 = ''Nonmalicious''"
    by (simp_all add: two_edges_row_def csv_field_def)
  with feature_row_schema [of example_libs "{}" "''Nonmalicious/sub/two.dot''" False None
      two_edges_row None no_files]
    process_two_edges first_run_rows
  show ?thesis
    by simp
qed

text \<open>
  C9.  A run only appends: the rows of the output file before the run are a prefix of
  its rows after the run, and so for the failure log; the set of identities that
  \<open>get_processed_files\<close> reads from the output file does not shrink; an output file that
  exists still exists, and the failure log exists after every run.
\<close>

theorem append_only:
  "prefix (rows (output_csv st)) (rows (output_csv (main L st))) \<and>
   prefix (rows (unprocessed_files_log st)) (rows (unprocessed_files_log (main L st))) \<and>
   get_processed_files (output_csv st) \<subseteq> get_processed_files (output_csv (main L st)) \<and>
   (output_csv st \<noteq> None \<longrightarrow> output_csv (main L st) \<noteq> None) \<and>
   unprocessed_files_log (main L st) \<noteq> None"
proof -
  have out: "prefix (rows (output_csv st)) (rows (output_csv (main L st)))"
    by (simp add: main_output)
  have "prefix (rows (unprocessed_files_log st))
          (rows (if unprocessed_files_log st = None then Some [[''Filename'', ''Error Message'']]
                 else unprocessed_files_log st))"
    by simp
  moreover have "prefix (rows u)
      (rows (unprocessed_files_log (dispatch L ws ps \<lparr>output_csv = out,
          unprocessed_files_log = u, processed_files = pf\<rparr>)))" for u ws ps out pf
    using dispatch_log [of "\<lparr>output_csv = out, unprocessed_files_log = u,
          processed_files = pf\<rparr>" L ws ps] by simp
  ultimately have flog:
    "prefix (rows (unprocessed_files_log st)) (rows (unprocessed_files_log (main L st)))"
    by (auto simp: main_def Let_def intro: prefix_order.trans)
  have "unprocessed_files_log (dispatch L ws ps \<lparr>output_csv = out,
          unprocessed_files_log = Some u, processed_files = pf\<rparr>) \<noteq> None" for u ws ps out pf
    by (rule dispatch_log_exists) simp
  then have ex: "unprocessed_files_log (main L st) \<noteq> None"
    by (auto simp: main_def Let_def)
  from out have "get_processed_files (output_csv st) \<subseteq> get_processed_files (output_csv (main L st))"
    by (simp only: get_processed_files_identities identities_mono)
  moreover have "output_csv st \<noteq> None \<longrightarrow> output_csv (main L st) \<noteq> None"
    using main_output_exists [of L st] by blast
  ultimately show ?thesis
    using out flog ex by blast
qed


lemma first_run_example:
  "output_csv (main example_libs no_files) \<noteq> None \<and>
   length (rows (output_csv (main example_libs no_files))) = 3 \<and>
   get_processed_files (output_csv (main example_libs no_files))
     = {PyStr ''Malicious/cycle.dot'', PyStr ''Nonmalicious/sub/two.dot''}"
  by code_simp

theorem append_only_witness:
  "output_csv (main example_libs no_files) \<noteq> None \<and>
   output_csv (main example_libs (main example_libs no_files)) \<noteq> None \<and>
   prefix (rows (output_csv (main example_libs no_files)))
     (rows (output_csv (main example_libs (main example_libs no_files)))) \<and>
   {PyStr ''Malicious/cycle.dot'', PyStr ''Nonmalicious/sub/two.dot''}
     \<subseteq> get_processed_files (output_csv (main example_libs (main example_libs no_files)))"
  using append_only [of "main example_libs no_files" example_libs] first_run_example
  by simp


subsection \<open>Resuming\<close>



lemma strip_id:
  assumes "s \<noteq> []" and "\<not> is_space (hd s)" and "\<not> is_space (last s)"
  shows "strip s = s"
proof -
  from assms have "dropWhile is_space s = s"
    by (cases s) simp_all
  moreover from assms have "dropWhile is_space (rev s) = rev s"
    by (cases "rev s") (simp_all add: hd_rev [symmetric])
  ultimately show ?thesis by (simp add: strip_def)
qed

lemma endswith_dot:
  assumes "endswith f ''.dot''"
  shows "f \<noteq> [] \<and> last f = CHR ''t''"
proof -
  from assms have "drop (length f - length ''.dot'') f = ''.dot''"
    unfolding endswith_def by (rule conjunct2)
  with append_take_drop_id [of "length f - length ''.dot''" f]
  have "take (length f - length ''.dot'') f @ ''.dot'' = f"
    by (simp only:)
  then obtain g where "f = g @ ''.dot''"
    by (rule that [OF sym])
  then show ?thesis by simp
qed

lemma join_strip:
  assumes "prefix d dir" and "d \<noteq> []" and "\<not> is_space (hd d)" and "endswith f ''.dot''"
  shows "strip (os_path_join dir f) = os_path_join dir f"
proof -
  from assms(4) have f: "f \<noteq> []" "last f = CHR ''t''"
    by (simp_all add: endswith_dot)
  from assms(1) obtain r where r: "dir = d @ r"
    by (auto simp: prefix_def)
  with assms(2) have dir: "dir \<noteq> []" "hd dir = hd d"
    by simp_all
  have sp: "\<not> is_space (CHR ''t'')" "\<not> is_space (CHR ''/'')"
    by (simp_all add: is_space_def)
  show ?thesis
  proof (cases "take 1 f = ''/''")
    case True
    with f have "hd f = CHR ''/''" by (cases f) simp_all
    with f sp True show ?thesis
      by (simp add: os_path_join_def strip_id)
  next
    case False
    then have "os_path_join dir f = dir @ f \<or> os_path_join dir f = dir @ ''/'' @ f"
      by (simp add: os_path_join_def)
    then show ?thesis
    proof
      assume j: "os_path_join dir f = dir @ f"
      have "dir @ f \<noteq> []" "hd (dir @ f) = hd d" "last (dir @ f) = CHR ''t''"
        using dir f by simp_all
      with assms(3) sp have "strip (dir @ f) = dir @ f"
        by (intro strip_id) simp_all
      with j show ?thesis by simp
    next
      assume j: "os_path_join dir f = dir @ ''/'' @ f"
      have "dir @ ''/'' @ f \<noteq> []" "hd (dir @ ''/'' @ f) = hd d"
        "last (dir @ ''/'' @ f) = CHR ''t''"
        using dir f by simp_all
      with assms(3) sp have "strip (dir @ ''/'' @ f) = dir @ ''/'' @ f"
        by (intro strip_id) simp_all
      with j show ?thesis by simp
    qed
  qed
qed

lemma walk_directory_filter:
  "walk_directory L pf d l = filter (\<lambda>a. PyStr (fst a) \<notin> pf) (walk_directory L {} d l)"
proof -
  have "map (\<lambda>filename. (os_path_join dir filename, l))
          (filter (\<lambda>filename. endswith filename ''.dot'' \<and>
                     PyStr (os_path_join dir filename) \<notin> pf) files)
        = filter (\<lambda>a. PyStr (fst a) \<notin> pf)
            (map (\<lambda>filename. (os_path_join dir filename, l))
               (filter (\<lambda>filename. endswith filename ''.dot'') files))" for dir files
    by (induction files) simp_all
  then show ?thesis
    by (simp add: walk_directory_def filter_concat comp_def split_def)
qed

lemma file_paths_filter:
  "file_paths L pf = filter (\<lambda>a. PyStr (fst a) \<notin> pf) (file_paths L {})"
  by (simp add: file_paths_def walk_directory_filter [of L pf])

lemma walk_directory_member:
  assumes "a \<in> set (walk_directory L pf d l)"
  shows "\<exists>dir files f. (dir, files) \<in> set (os_walk L d) \<and> endswith f ''.dot'' \<and>
           a = (os_path_join dir f, l)"
proof -
  from assms obtain x where x: "x \<in> set (os_walk L d)" and
    a: "a \<in> set (case x of (dir, files) \<Rightarrow>
          map (\<lambda>filename. (os_path_join dir filename, l))
            (filter (\<lambda>filename. endswith filename ''.dot'' \<and>
                       PyStr (os_path_join dir filename) \<notin> pf) files))"
    unfolding walk_directory_def by auto
  obtain dir files where xp: "x = (dir, files)" by (cases x)
  from a [unfolded xp] obtain f where "endswith f ''.dot''" "a = (os_path_join dir f, l)"
    by auto
  with x xp show ?thesis
    by blast
qed

lemma walk_directory_strip:
  assumes w: "list_all (\<lambda>(top, files). prefix d top) (os_walk L d)"
    and d: "d \<noteq> []" "\<not> is_space (hd d)" and a: "a \<in> set (walk_directory L pf d l)"
  shows "strip (fst a) = fst a"
proof -
  from walk_directory_member [OF a] obtain dir files f where
    m: "(dir, files) \<in> set (os_walk L d)" and e: "endswith f ''.dot''" and
    p: "a = (os_path_join dir f, l)"
    by blast
  from w m have "prefix d dir"
    unfolding list_all_iff by blast
  from join_strip [OF this d e] show ?thesis
    by (simp only: p fst_conv)
qed

lemma file_paths_strip:
  assumes "walk_ok L" and "a \<in> set (file_paths L pf)"
  shows "strip (fst a) = fst a"
proof -
  have m: "''Malicious'' \<noteq> []" "\<not> is_space (hd ''Malicious'')"
    and n: "''Nonmalicious'' \<noteq> []" "\<not> is_space (hd ''Nonmalicious'')"
    by (simp_all add: is_space_def)
  from assms(2) consider "a \<in> set (walk_directory L pf ''Malicious'' True)"
    | "a \<in> set (walk_directory L pf ''Nonmalicious'' False)"
    by (auto simp: file_paths_def)
  then show ?thesis
  proof cases
    case 1
    from assms(1) have "list_all (\<lambda>(top, files). prefix ''Malicious'' top) (os_walk L ''Malicious'')"
      by (simp add: walk_ok_def)
    from walk_directory_strip [OF this m 1] show ?thesis .
  next
    case 2
    from assms(1) have "list_all (\<lambda>(top, files). prefix ''Nonmalicious'' top) (os_walk L ''Nonmalicious'')"
      by (simp add: walk_ok_def)
    from walk_directory_strip [OF this n 2] show ?thesis .
  qed
qed


lemma main_prefix: "prefix (rows (output_csv st)) (rows (output_csv (main L st)))"
  by (simp add: main_output)

lemma accepted_heads:
  "map (\<lambda>row. PyStr (strip (hd row)))
     (filter (\<lambda>row. row \<noteq> []) (map (map (csv_field L)) (accepted L ws ps)))
   = map (\<lambda>a. PyStr (strip (fst a)))
       (filter (\<lambda>a. fst (process_file L ws a None) \<noteq> None) ps)"
proof (induction ps)
  case Nil
  show ?case by simp
next
  case (Cons a ps)
  show ?case
  proof (cases "fst (process_file L ws a None)")
    case None
    with Cons show ?thesis by (simp add: accepted_Cons)
  next
    case (Some row)
    then have "fst (process_file L ws (fst a, snd a) None) = Some row" by simp
    from process_file_head [OF this] obtain rest where "row = PyStr (fst a) # rest"
      by blast
    with Some Cons show ?thesis
      by (simp add: accepted_Cons csv_field_def)
  qed
qed

lemma accepted_empty:
  "\<forall>a \<in> set ps. fst (process_file L ws a None) = None \<Longrightarrow> accepted L ws ps = []"
  by (induction ps) (simp_all add: accepted_Cons)

lemma main_identities:
  "identities (output_csv (main L st))
     = identities (output_csv st)
       @ map (\<lambda>a. PyStr (strip (fst a)))
           (filter (\<lambda>a. fst (process_file L (get_processed_files (output_csv st)) a None) \<noteq> None)
              (file_paths L (get_processed_files (output_csv st))))"
proof (cases "file_paths L (get_processed_files (output_csv st)) = []")
  case True
  then show ?thesis by (simp add: identities_def main_output)
next
  case False
  have "tl ((if rows (output_csv st) = [] then [columns] else rows (output_csv st)) @ X)
        = tl (rows (output_csv st)) @ X" for X
    by simp
  with False show ?thesis
    by (simp add: identities_def main_output accepted_heads)
qed

lemma second_run_rejects:
  assumes w: "walk_ok L"
    and a: "a \<in> set (file_paths L (get_processed_files (output_csv (main L st))))"
  shows "fst (process_file L (get_processed_files (output_csv (main L st))) a None) = None"
proof (rule ccontr)
  let ?l0 = "get_processed_files (output_csv st)"
  let ?l1 = "get_processed_files (output_csv (main L st))"
  assume n: "fst (process_file L ?l1 a None) \<noteq> None"
  from a have a0: "a \<in> set (file_paths L {})" and a1: "PyStr (fst a) \<notin> ?l1"
    by (simp_all add: file_paths_filter [of L ?l1])
  have "?l0 \<subseteq> ?l1"
    by (simp only: get_processed_files_identities identities_mono main_prefix)
  with a1 have a2: "PyStr (fst a) \<notin> ?l0" by blast
  with a0 have a3: "a \<in> set (file_paths L ?l0)"
    by (simp add: file_paths_filter [of L ?l0])
  have "process_file L ?l0 a None = process_file L ?l1 a None"
    by (rule process_file_worker_set [OF a2 a1])
  with n have "fst (process_file L ?l0 a None) \<noteq> None" by simp
  with a3 have "PyStr (strip (fst a)) \<in> set (identities (output_csv (main L st)))"
    by (simp add: main_identities)
  moreover from w a3 have "strip (fst a) = fst a" by (rule file_paths_strip)
  ultimately have "PyStr (fst a) \<in> ?l1"
    by (simp add: get_processed_files_identities)
  with a1 show False by contradiction
qed


lemma second_run_output:
  assumes "walk_ok L"
  shows "output_csv (main L (main L st)) = output_csv (main L st)"
proof -
  let ?l0 = "get_processed_files (output_csv st)"
  let ?l1 = "get_processed_files (output_csv (main L st))"
  have acc: "accepted L ?l1 (file_paths L ?l1) = []"
    by (rule accepted_empty) (simp add: second_run_rejects [OF assms])
  have sub: "?l0 \<subseteq> ?l1"
    by (simp only: get_processed_files_identities identities_mono main_prefix)
  have ne: "rows (output_csv (main L st)) \<noteq> []" "output_csv (main L st) \<noteq> None"
    if p: "file_paths L ?l1 \<noteq> []"
  proof -
    from p obtain a where "a \<in> set (file_paths L ?l1)"
      by (cases "file_paths L ?l1") auto
    then have "a \<in> set (file_paths L {})" "PyStr (fst a) \<notin> ?l1"
      by (simp_all add: file_paths_filter [of L ?l1])
    with sub have "a \<in> set (file_paths L ?l0)"
      by (auto simp: file_paths_filter [of L ?l0])
    then have q: "file_paths L ?l0 \<noteq> []" by auto
    then show "rows (output_csv (main L st)) \<noteq> []"
      by (simp add: main_output)
    from q show "output_csv (main L st) \<noteq> None"
      using main_output_exists [of L st] by blast
  qed
  have r: "rows (output_csv (main L (main L st))) = rows (output_csv (main L st))"
    using ne(1) by (simp add: main_output [of L "main L st"] acc)
  have e: "output_csv (main L (main L st)) \<noteq> None \<longleftrightarrow> output_csv (main L st) \<noteq> None"
    using ne(2) main_output_exists [of L "main L st"] by blast
  show ?thesis
  proof (cases "output_csv (main L st)")
    case None
    with e show ?thesis by simp
  next
    case (Some rs)
    with e obtain rs' where "output_csv (main L (main L st)) = Some rs'" by auto
    with r Some show ?thesis by simp
  qed
qed

lemma main_distinct:
  assumes w: "walk_ok L" and d: "distinct (identities (output_csv st))"
    and c: "distinct (map fst (file_paths L {}))"
  shows "distinct (identities (output_csv (main L st)))"
proof -
  let ?l0 = "get_processed_files (output_csv st)"
  let ?ok = "filter (\<lambda>a. fst (process_file L ?l0 a None) \<noteq> None) (file_paths L ?l0)"
  have s: "map (\<lambda>a. PyStr (strip (fst a))) ?ok = map PyStr (map fst ?ok)"
    using file_paths_strip [OF w, of _ ?l0] by (simp add: comp_def)
  have "distinct (map fst ?ok)"
    using c by (simp add: file_paths_filter [of L ?l0] distinct_map_filter)
  then have d2: "distinct (map PyStr (map fst ?ok))"
    by (simp add: distinct_map inj_on_def)
  have "PyStr (fst a) \<notin> ?l0" if "a \<in> set ?ok" for a
    using that by (simp add: file_paths_filter [of L ?l0])
  then have "set (identities (output_csv st)) \<inter> set (map PyStr (map fst ?ok)) = {}"
    by (auto simp: get_processed_files_identities)
  with d d2 show ?thesis
    unfolding main_identities s distinct_append by blast
qed

text \<open>
  C1.  When \<open>os.walk\<close> yields directories below its top directory, a second run over
  the same corpus leaves the output file as the first run left it, so the set of
  identities is the same; a run keeps the identities of the data rows distinct when
  they were distinct and the corpus holds no path twice; and the enumeration yields
  exactly the work items of the corpus whose path is not among the identities read
  from the output file.
\<close>

theorem idempotent_resume:
  assumes "walk_ok L"
  shows "output_csv (main L (main L st)) = output_csv (main L st) \<and>
         get_processed_files (output_csv (main L (main L st)))
           = get_processed_files (output_csv (main L st)) \<and>
         (distinct (identities (output_csv st)) \<and> distinct (map fst (file_paths L {}))
            \<longrightarrow> distinct (identities (output_csv (main L st))) \<and>
                distinct (identities (output_csv (main L (main L st))))) \<and>
         file_paths L (get_processed_files f)
           = filter (\<lambda>a. PyStr (fst a) \<notin> get_processed_files f) (file_paths L {})"
  using assms
  by (simp add: second_run_output main_distinct file_paths_filter [of L "get_processed_files f"])


lemma abc_example:
  "walk_ok abc_libs \<and>
   get_processed_files abc_output = {PyStr ''Malicious/A.dot'', PyStr ''Malicious/B.dot''} \<and>
   file_paths abc_libs {}
     = [(''Malicious/A.dot'', True), (''Malicious/B.dot'', True), (''Nonmalicious/C.dot'', False)]"
  by code_simp

lemma example_corpus:
  "walk_ok example_libs \<and> distinct (identities (output_csv no_files)) \<and>
   distinct (map fst (file_paths example_libs {}))"
  by code_simp

theorem idempotent_resume_witness:
  "walk_ok abc_libs \<and>
   get_processed_files abc_output = {PyStr ''Malicious/A.dot'', PyStr ''Malicious/B.dot''} \<and>
   map fst (file_paths abc_libs {})
     = [''Malicious/A.dot'', ''Malicious/B.dot'', ''Nonmalicious/C.dot''] \<and>
   file_paths abc_libs (get_processed_files abc_output) = [(''Nonmalicious/C.dot'', False)] \<and>
   walk_ok example_libs \<and>
   output_csv (main example_libs (main example_libs no_files))
     = output_csv (main example_libs no_files) \<and>
   distinct (identities (output_csv (main example_libs no_files)))"
  using idempotent_resume [of abc_libs no_files abc_output]
    idempotent_resume [of example_libs no_files abc_output] abc_example example_corpus
  by simp

end
